theory Spec2Isabelle
  imports Complex_Main
begin

section \<open>JavaScript numbers\<close>

text \<open>
  A JavaScript number is an IEEE 754 binary64 value: a finite value, one of the two
  infinities, or NaN. A finite value is kept as the real number it stands for. The two
  zeros are one value here: they differ only as divisors, and the analyzer never divides by
  zero (it returns early on a zero estimate, and divides by the length of an array that
  holds at least five samples).
\<close>

datatype double = Finite real | PosInf | NegInf | NaN

text \<open>The nearest integer, the even one of the two when they are equally near.\<close>

definition round_ties_even :: "real \<Rightarrow> int" where
  "round_ties_even y =
     (let n = \<lfloor>y\<rfloor> in
      if y - of_int n < 1 / 2 then n
      else if y - of_int n > 1 / 2 then n + 1
      else if even n then n else n + 1)"

text \<open>
  The doubles around \<open>x\<close> are the multiples of \<open>2 powi (binade x - 52)\<close>: 53 significant bits
  at the exponent of \<open>x\<close>, and the spacing \<open>2 powi (- 1074)\<close> of the subnormal numbers below
  \<open>2 powi (- 1022)\<close>. \<open>MAX_DOUBLE\<close> is the largest finite double.
\<close>

definition binade :: "real \<Rightarrow> int" where
  "binade x = max \<lfloor>log 2 \<bar>x\<bar>\<rfloor> (- 1022)"

definition MAX_DOUBLE :: real where
  "MAX_DOUBLE = (2 ^ 53 - 1) * 2 ^ 971"

text \<open>
  Rounding of an exact result, and the value of a decimal literal of the source such as
  \<open>0.3\<close>: the nearest double, ties to the even significand, and an infinity when the
  rounded value is beyond the largest finite double.
\<close>

definition nearest_double :: "real \<Rightarrow> double" where
  "nearest_double x =
     (if x = 0 then Finite 0
      else
        let q = 2 powi (binade x - 52);
            y = of_int (round_ties_even (x / q)) * q
        in if y > MAX_DOUBLE then PosInf
           else if y < - MAX_DOUBLE then NegInf
           else Finite y)"

text \<open>The operators \<open>+\<close>, unary and binary \<open>-\<close>, \<open>*\<close>, \<open>/\<close>, \<open>>\<close>, \<open><=\<close> and \<open>Math.abs\<close>.\<close>

fun fadd :: "double \<Rightarrow> double \<Rightarrow> double" where
  "fadd NaN y = NaN"
| "fadd x NaN = NaN"
| "fadd PosInf NegInf = NaN"
| "fadd NegInf PosInf = NaN"
| "fadd PosInf y = PosInf"
| "fadd x PosInf = PosInf"
| "fadd NegInf y = NegInf"
| "fadd x NegInf = NegInf"
| "fadd (Finite a) (Finite b) = nearest_double (a + b)"

fun fneg :: "double \<Rightarrow> double" where
  "fneg NaN = NaN"
| "fneg PosInf = NegInf"
| "fneg NegInf = PosInf"
| "fneg (Finite a) = Finite (- a)"

definition fsub :: "double \<Rightarrow> double \<Rightarrow> double" where
  "fsub x y = fadd x (fneg y)"

fun fabs :: "double \<Rightarrow> double" where
  "fabs NaN = NaN"
| "fabs PosInf = PosInf"
| "fabs NegInf = PosInf"
| "fabs (Finite a) = Finite \<bar>a\<bar>"

fun fsign :: "double \<Rightarrow> real" where
  "fsign (Finite a) = sgn a"
| "fsign PosInf = 1"
| "fsign NegInf = - 1"
| "fsign NaN = 0"

text \<open>The infinity of a sign; a product of an infinity and zero is NaN.\<close>

definition infinity_of :: "real \<Rightarrow> double" where
  "infinity_of s = (if s = 0 then NaN else if s > 0 then PosInf else NegInf)"

fun fmul :: "double \<Rightarrow> double \<Rightarrow> double" where
  "fmul NaN y = NaN"
| "fmul x NaN = NaN"
| "fmul (Finite a) (Finite b) = nearest_double (a * b)"
| "fmul x y = infinity_of (fsign x * fsign y)"

fun fdiv :: "double \<Rightarrow> double \<Rightarrow> double" where
  "fdiv NaN y = NaN"
| "fdiv x NaN = NaN"
| "fdiv (Finite a) (Finite b) = (if b = 0 then infinity_of (sgn a) else nearest_double (a / b))"
| "fdiv (Finite a) y = Finite 0"
| "fdiv x (Finite b) = infinity_of (fsign x * (if b < 0 then - 1 else 1))"
| "fdiv x y = NaN"

fun fgt :: "double \<Rightarrow> double \<Rightarrow> bool" where
  "fgt NaN y = False"
| "fgt x NaN = False"
| "fgt (Finite a) (Finite b) = (a > b)"
| "fgt PosInf y = (y \<noteq> PosInf)"
| "fgt x PosInf = False"
| "fgt x NegInf = (x \<noteq> NegInf)"
| "fgt NegInf y = False"

fun fle :: "double \<Rightarrow> double \<Rightarrow> bool" where
  "fle NaN y = False"
| "fle x NaN = False"
| "fle (Finite a) (Finite b) = (a \<le> b)"
| "fle x PosInf = True"
| "fle NegInf y = True"
| "fle PosInf y = False"
| "fle x NegInf = False"

text \<open>
  \<open>Math.pow\<close> and \<open>Math.sqrt\<close> are approximated as the implementation sees fit (the language
  standard asks no more), so the \<open>Math\<close> object is a parameter of the analyzer.
\<close>

record MathLib =
  Math_pow :: "double \<Rightarrow> double \<Rightarrow> double"
  Math_sqrt :: "double \<Rightarrow> double"


section \<open>Risk and calibration module (profit-analyzer.js)\<close>

text \<open>
  A field of the trade data that may be missing (\<open>undefined\<close>) is a \<^typ>\<open>double option\<close>.
\<close>

record ProfitSample =
  sample_timestamp :: int
  sample_pair :: string
  sample_estimated :: double
  sample_actual :: double
  errorRatio :: double

record TradeData =
  td_estimated :: "double option"
  td_actual :: "double option"
  td_pair :: string
  td_timestamp :: int

text \<open>
  The analyzer object: the in-memory history, the two thresholds set by the constructor
  (the literals \<open>0.1\<close> and \<open>0.3\<close>), and the content of \<open>profit-statistics.json\<close> as last
  written.
\<close>

record ProfitAnalyzer =
  historicalData :: "ProfitSample list"
  errorThreshold :: double
  criticalErrorThreshold :: double
  statisticsFile :: "ProfitSample list"

definition new_ProfitAnalyzer :: "ProfitSample list \<Rightarrow> ProfitAnalyzer" where
  "new_ProfitAnalyzer loaded =
     \<lparr>historicalData = loaded, errorThreshold = nearest_double (1 / 10),
      criticalErrorThreshold = nearest_double (3 / 10), statisticsFile = loaded\<rparr>"

text \<open>\<open>saveHistoricalData\<close>: a failed write is caught and logged, the file keeps its content.\<close>

definition saveHistoricalData :: "bool \<Rightarrow> ProfitAnalyzer \<Rightarrow> ProfitAnalyzer" where
  "saveHistoricalData write_ok pa =
     (if write_ok then pa\<lparr>statisticsFile := historicalData pa\<rparr> else pa)"

text \<open>\<open>Array.prototype.slice(-n)\<close>: the last \<open>n\<close> elements, the whole array when it is shorter.\<close>

definition slice_last :: "nat \<Rightarrow> 'a list \<Rightarrow> 'a list" where
  "slice_last n xs = drop (length xs - n) xs"

text \<open>
  The truth value of \<open>!x\<close> for a number or a missing field: true for \<open>undefined\<close>, zero and
  NaN.
\<close>

definition js_not :: "double option \<Rightarrow> bool" where
  "js_not v = (case v of None \<Rightarrow> True | Some x \<Rightarrow> x = Finite 0 \<or> x = NaN)"

text \<open>
  The object returned by \<open>analyzeEstimationAccuracy\<close>; a field the object does not have
  is \<open>None\<close>. \<open>errorPercent\<close>, which the source formats with \<open>toFixed\<close>, is kept as the
  number it prints, and the \<open>message\<close> string is left out.
\<close>

record AccuracyResult =
  accurate :: bool
  error :: "string option"
  critical :: "bool option"
  result_errorRatio :: "double option"
  errorPercent :: "double option"

definition analyzeEstimationAccuracy ::
  "bool \<Rightarrow> TradeData \<Rightarrow> ProfitAnalyzer \<Rightarrow> AccuracyResult \<times> ProfitAnalyzer" where
  "analyzeEstimationAccuracy write_ok tradeData pa =
     (if js_not (td_estimated tradeData) \<or> js_not (td_actual tradeData)
      then (\<lparr>accurate = False, error = Some ''Missing data'', critical = None,
             result_errorRatio = None, errorPercent = None\<rparr>, pa)
      else
        let estimated = the (td_estimated tradeData);
            actual = the (td_actual tradeData);
            ratio = fdiv (fabs (fsub estimated actual)) estimated;
            percent = fmul ratio (Finite 100);
            pushed = historicalData pa @
              [\<lparr>sample_timestamp = td_timestamp tradeData, sample_pair = td_pair tradeData,
                sample_estimated = estimated, sample_actual = actual, errorRatio = ratio\<rparr>];
            kept = (if length pushed > 100 then slice_last 100 pushed else pushed);
            pa' = saveHistoricalData write_ok (pa\<lparr>historicalData := kept\<rparr>)
        in (\<lparr>accurate = fle ratio (errorThreshold pa), error = None,
             critical = Some (fgt ratio (criticalErrorThreshold pa)),
             result_errorRatio = Some ratio, errorPercent = Some percent\<rparr>, pa'))"

datatype RiskLevel = Unknown | Low | Medium | High

text \<open>
  The object returned by \<open>assessRisk\<close>; \<open>avgError\<close> and \<open>stdDev\<close>, which the source formats
  with \<open>toFixed\<close>, are kept as the numbers they print.
\<close>

record RiskAssessment =
  level :: RiskLevel
  avgError :: "double option"
  stdDev :: "double option"
  message :: string

text \<open>
  \<open>assessRisk\<close> (lines 119-156). Both \<open>reduce\<close> calls start from \<open>0\<close> and add from the
  oldest sample of the window to the newest; the length of the array is a small integer,
  which is a double.
\<close>

definition assessRisk :: "MathLib \<Rightarrow> ProfitAnalyzer \<Rightarrow> RiskAssessment" where
  "assessRisk ml pa =
     (if length (historicalData pa) < 5
      then \<lparr>level = Unknown, avgError = None, stdDev = None,
            message = ''Not enough historical data''\<rparr>
      else
        let recentTrades = slice_last 10 (historicalData pa);
            avg = fdiv (foldl (\<lambda>sum trade. fadd sum (errorRatio trade)) (Finite 0) recentTrades)
                       (Finite (real (length recentTrades)));
            variance =
              fdiv (foldl (\<lambda>sum trade.
                             fadd sum (Math_pow ml (fsub (errorRatio trade) avg) (Finite 2)))
                      (Finite 0) recentTrades)
                   (Finite (real (length recentTrades)));
            sd = Math_sqrt ml variance
        in if fgt avg (criticalErrorThreshold pa)
           then \<lparr>level = High, avgError = Some (fmul avg (Finite 100)),
                 stdDev = Some (fmul sd (Finite 100)),
                 message = ''High risk: Large average estimation error''\<rparr>
           else if fgt avg (errorThreshold pa)
           then \<lparr>level = Medium, avgError = Some (fmul avg (Finite 100)),
                 stdDev = Some (fmul sd (Finite 100)),
                 message = ''Medium risk: Significant estimation error''\<rparr>
           else if fgt sd (nearest_double (2 / 10))
           then \<lparr>level = Medium, avgError = Some (fmul avg (Finite 100)),
                 stdDev = Some (fmul sd (Finite 100)),
                 message = ''Medium risk: Volatile estimation accuracy''\<rparr>
           else \<lparr>level = Low, avgError = Some (fmul avg (Finite 100)),
                 stdDev = Some (fmul sd (Finite 100)),
                 message = ''Low risk: Consistent estimation accuracy''\<rparr>)"


subsection \<open>The specification's reading of the risk table\<close>

text \<open>
  The rolling risk level as the specification words it: the mean and the standard deviation
  of the error ratios of the most recent samples (ten in the code), compared with the
  tolerance bound 0.1, the critical bound 0.3 and the volatility bound 0.2, mean first.
  Mean and deviation are the numbers of mathematics, over the values the stored doubles
  stand for.
\<close>

definition mean :: "real list \<Rightarrow> real" where
  "mean xs = sum_list xs / real (length xs)"

definition variance_of :: "real list \<Rightarrow> real" where
  "variance_of xs = sum_list (map (\<lambda>x. (x - mean xs) ^ 2) xs) / real (length xs)"

definition std_deviation :: "real list \<Rightarrow> real" where
  "std_deviation xs = sqrt (variance_of xs)"

fun real_of :: "double \<Rightarrow> real" where
  "real_of (Finite a) = a"
| "real_of x = 0"

definition error_ratios :: "ProfitSample list \<Rightarrow> real list" where
  "error_ratios h = map (\<lambda>trade. real_of (errorRatio trade)) h"

definition spec_risk_level :: "ProfitSample list \<Rightarrow> RiskLevel" where
  "spec_risk_level h =
     (if length h < 5 then Unknown
      else if mean (error_ratios (slice_last 10 h)) > 0.3 then High
      else if mean (error_ratios (slice_last 10 h)) > 0.1 then Medium
      else if std_deviation (error_ratios (slice_last 10 h)) > 0.2 then Medium
      else Low)"

text \<open>
  The same table over the mean and the deviation as \<open>assessRisk\<close> computes them: sums of
  doubles taken from the oldest sample to the newest, each sum and quotient rounded, the
  square and the square root as the \<open>Math\<close> object gives them.
\<close>

definition recent_errors :: "ProfitSample list \<Rightarrow> double list" where
  "recent_errors h = map errorRatio (slice_last 10 h)"

definition computed_mean :: "double list \<Rightarrow> double" where
  "computed_mean xs = fdiv (foldl fadd (Finite 0) xs) (Finite (real (length xs)))"

definition computed_variance :: "MathLib \<Rightarrow> double list \<Rightarrow> double" where
  "computed_variance ml xs =
     fdiv (foldl fadd (Finite 0)
             (map (\<lambda>x. Math_pow ml (fsub x (computed_mean xs)) (Finite 2)) xs))
          (Finite (real (length xs)))"

definition computed_deviation :: "MathLib \<Rightarrow> double list \<Rightarrow> double" where
  "computed_deviation ml xs = Math_sqrt ml (computed_variance ml xs)"

definition computed_risk_level :: "MathLib \<Rightarrow> ProfitSample list \<Rightarrow> RiskLevel" where
  "computed_risk_level ml h =
     (if length h < 5 then Unknown
      else if fgt (computed_mean (recent_errors h)) (nearest_double (3 / 10)) then High
      else if fgt (computed_mean (recent_errors h)) (nearest_double (1 / 10)) then Medium
      else if fgt (computed_deviation ml (recent_errors h)) (nearest_double (2 / 10)) then Medium
      else Low)"

text \<open>The ordering \<open>low < medium < high\<close> of the risk levels.\<close>

fun risk_rank :: "RiskLevel \<Rightarrow> nat" where
  "risk_rank Unknown = 0"
| "risk_rank Low = 1"
| "risk_rank Medium = 2"
| "risk_rank High = 3"

subsection \<open>Sample inputs of the analyzer\<close>

text \<open>
  A \<open>Math\<close> object whose square (the analyzer calls \<open>Math.pow\<close> with the exponent 2 only)
  and square root are correctly rounded.
\<close>

fun fsqrt :: "double \<Rightarrow> double" where
  "fsqrt NaN = NaN"
| "fsqrt PosInf = PosInf"
| "fsqrt NegInf = NaN"
| "fsqrt (Finite a) = (if a < 0 then NaN else nearest_double (sqrt a))"

definition sample_math :: MathLib where
  "sample_math = \<lparr>Math_pow = (\<lambda>x y. fmul x x), Math_sqrt = fsqrt\<rparr>"

text \<open>
  The sample that \<open>analyzeEstimationAccuracy\<close> stores for an estimate of 100 and an actual
  profit of \<open>100 - 100 * r\<close>: its error ratio is the double nearest to \<open>r\<close>.
\<close>

definition sample_of :: "real \<Rightarrow> ProfitSample" where
  "sample_of r = \<lparr>sample_timestamp = 0, sample_pair = ''WETH-USDC'',
     sample_estimated = Finite 100, sample_actual = Finite (100 - 100 * r),
     errorRatio = nearest_double r\<rparr>"

definition calm_history :: "ProfitSample list" where
  "calm_history = map sample_of [0.125, 0.375, 0.125, 0.375, 0.25]"

definition rough_history :: "ProfitSample list" where
  "rough_history = map sample_of [0.375, 0.625, 0.375, 0.625, 0.5]"

text \<open>Five samples, and the same five from the last to the first.\<close>

definition forward_history :: "ProfitSample list" where
  "forward_history = map sample_of [0.59, 0.28, 0.45, 0.13, 0.05]"

definition backward_history :: "ProfitSample list" where
  "backward_history = map sample_of [0.05, 0.13, 0.45, 0.28, 0.59]"

text \<open>
  Two histories of eleven samples: the ten that \<open>assessRisk\<close> looks at and an older one.
\<close>

definition early_low_history :: "ProfitSample list" where
  "early_low_history = map sample_of [0.1875, 0.3125, 0.3125, 0.3125, 0.3125, 0.3125, 0.3125, 0.3125,
       0.3125, 0.3125, 0.3125]"

definition early_high_history :: "ProfitSample list" where
  "early_high_history = map sample_of [0.421875, 0.296875, 0.296875, 0.296875, 0.296875, 0.296875,
       0.296875, 0.296875, 0.296875, 0.296875, 0.296875]"

definition zero_actual_trade :: TradeData where
  "zero_actual_trade =
     \<lparr>td_estimated = Some (Finite 5), td_actual = Some (Finite 0), td_pair = ''WETH-USDC'',
      td_timestamp = 1700000000000\<rparr>"

definition overestimated_trade :: TradeData where
  "overestimated_trade =
     \<lparr>td_estimated = Some (Finite 1), td_actual = Some (nearest_double 0.7),
      td_pair = ''WETH-USDC'', td_timestamp = 1700000000000\<rparr>"


section \<open>Execution orchestrator (arbitrage-manager.js)\<close>

text \<open>
  Amounts are ethers \<open>BigNumber\<close>s, modelled as \<^typ>\<open>int\<close>; clock readings (\<open>Date.now()\<close>,
  in milliseconds) are \<^typ>\<open>int\<close>; configuration numbers are \<^typ>\<open>int\<close> or \<^typ>\<open>real\<close>.
  Logging and the Slack notification (which catches its own errors) have no effect on the
  state and are left out.
\<close>

record Token =
  token_address :: string
  symbol :: string
  decimals :: nat

text \<open>A configured venue; \<open>has_router\<close> says whether \<open>initializeBot\<close> attached a router object.\<close>

record Dex =
  dex_name :: string
  has_router :: bool

record Config =
  dexes :: "Dex list"
  minProfitUSD :: real
  cfg_minProfitPercent :: real
  maxHops :: int
  maxExecutionsPerHour :: int
  executionCooldown :: int
  gasLimit :: int

record ExecutionRecord =
  exec_timestamp :: int
  txHash :: string
  exec_profit :: real
  exec_route :: string

text \<open>
  The object handed to \<open>executeArbitrage\<close>. It destructures \<open>tokenA\<close> and \<open>tokenB\<close> from
  it; an object without them (the one \<open>findBestArbitrageRoute\<close> builds spreads a route,
  which has neither) gives \<open>undefined\<close>, here \<open>None\<close>.
\<close>

record Opportunity =
  opp_tokenA :: "Token option"
  opp_tokenB :: "Token option"
  opp_amountIn :: int
  opp_path :: "string list"
  opp_dexIndices :: "nat list"
  opp_profit :: int
  opp_profitPercent :: real
  estimatedProfitUSD :: real
  opp_profitable :: bool
  routeDescription :: string

text \<open>
  What the network answers to one call of \<open>executeArbitrage\<close>: the clock at the rate check,
  at the construction of the route and at the push of the record; the gas price (\<open>None\<close>
  when the provider call throws); and the fate of the transaction: sending throws, waiting
  for the receipt throws, or a receipt arrives with a status.
\<close>

datatype TxOutcome = SendThrows | WaitThrows string | Receipt string int

record ExecEnv =
  clock_gate :: int
  clock_route :: int
  clock_done :: int
  getGasPrice :: "int option"
  tx_outcome :: TxOutcome

text \<open>The arguments of the contract call \<open>contract.executeArbitrage\<close>, when it is made.\<close>

record SubmittedTx =
  sub_tokenA :: string
  sub_tokenB :: string
  sub_amountIn :: int
  sub_path :: "string list"
  sub_dexIndices :: "nat list"
  sub_expectedProfit :: int
  sub_timestamp :: int
  sub_gasPrice :: int
  sub_gasLimit :: int

text \<open>
  \<open>executeArbitrage\<close> (lines 537-617): the returned boolean, the execution history
  afterwards and the contract call, if one was sent. Every exception inside is caught and
  gives \<open>false\<close>.
\<close>

definition executeArbitrage ::
  "Config \<Rightarrow> ExecEnv \<Rightarrow> Opportunity \<Rightarrow> ExecutionRecord list
     \<Rightarrow> bool \<times> ExecutionRecord list \<times> SubmittedTx option" where
  "executeArbitrage cfg env opportunity executionHistory =
     (if int (length executionHistory) \<ge> maxExecutionsPerHour cfg \<and>
         int (length (filter (\<lambda>e. exec_timestamp e > clock_gate env - 60 * 60 * 1000)
                executionHistory)) \<ge> maxExecutionsPerHour cfg
      then (False, executionHistory, None)
      else
        case getGasPrice env of
          None \<Rightarrow> (False, executionHistory, None)
        | Some gasPrice \<Rightarrow>
            (case opp_tokenA opportunity of
               None \<Rightarrow> (False, executionHistory, None)
             | Some tokenA \<Rightarrow>
                 (case opp_tokenB opportunity of
                    None \<Rightarrow> (False, executionHistory, None)
                  | Some tokenB \<Rightarrow>
                      let tx = \<lparr>sub_tokenA = token_address tokenA,
                                sub_tokenB = token_address tokenB,
                                sub_amountIn = opp_amountIn opportunity,
                                sub_path = opp_path opportunity,
                                sub_dexIndices = opp_dexIndices opportunity,
                                sub_expectedProfit = opp_profit opportunity,
                                sub_timestamp = clock_route env div 1000,
                                sub_gasPrice = gasPrice,
                                sub_gasLimit = gasLimit cfg\<rparr>
                      in (case tx_outcome env of
                            SendThrows \<Rightarrow> (False, executionHistory, None)
                          | WaitThrows h \<Rightarrow> (False, executionHistory, Some tx)
                          | Receipt h status \<Rightarrow>
                              if status = 1
                              then (True,
                                    executionHistory @
                                      [\<lparr>exec_timestamp = clock_done env, txHash = h,
                                        exec_profit = estimatedProfitUSD opportunity,
                                        exec_route = routeDescription opportunity\<rparr>],
                                    Some tx)
                              else (False, executionHistory, Some tx)))))"

record WatchedPair =
  pair_tokenA :: Token
  pair_tokenB :: Token
  pair_active :: bool
  lastChecked :: int
  lastProfit :: real
  successCount :: nat









subsection \<open>The three-hop route search\<close>

text \<open>
  A live quote \<open>router.getAmountsOut(amountIn, path)\<close> of the venue with the given index:
  the amounts, or \<open>None\<close> when the call throws.
\<close>

type_synonym Quotes = "nat \<Rightarrow> int \<Rightarrow> string list \<Rightarrow> int list option"

record Route =
  route_type :: string
  route_path :: "string list"
  route_dexIndices :: "nat list"
  route_amountIn :: int
  expectedOut :: int
  route_profit :: int
  route_profitPercent :: real

text \<open>
  \<open>(await CONFIG.dexes[i].router.getAmountsOut(amount, path))[1]\<close>. An index past the end
  of \<open>CONFIG.dexes\<close> gives \<open>undefined\<close>, whose \<open>router\<close> cannot be read; a venue without a
  router, a quote that throws and an answer with no second entry all end in an
  exception as well, here \<open>None\<close>.
\<close>

definition quoteOut :: "Config \<Rightarrow> Quotes \<Rightarrow> nat \<Rightarrow> int \<Rightarrow> string list \<Rightarrow> int option" where
  "quoteOut cfg quotes i amount p =
     (if i < length (dexes cfg) then
        if has_router (dexes cfg ! i) then
          case quotes i amount p of
            None \<Rightarrow> None
          | Some amounts \<Rightarrow> if 1 < length amounts then Some (amounts ! 1) else None
        else None
      else None)"

text \<open>
  The body of the innermost loop (lines 439-486): the \<open>try\<close> block prices A to C, C to B
  and B to A and pushes a route when the profit is positive; the \<open>catch\<close> continues with
  the routes unchanged.
\<close>

definition threeHopBody ::
  "Config \<Rightarrow> Quotes \<Rightarrow> Token \<Rightarrow> Token \<Rightarrow> Token \<Rightarrow> nat \<Rightarrow> nat \<Rightarrow> nat \<Rightarrow> Route list
     \<Rightarrow> Route list" where
  "threeHopBody cfg quotes tokenA tokenB tokenC i j k routes =
     (let amountIn = 10 ^ decimals tokenA in
      case quoteOut cfg quotes i amountIn [token_address tokenA, token_address tokenC] of
        None \<Rightarrow> routes
      | Some amountC \<Rightarrow>
          (case quoteOut cfg quotes j amountC [token_address tokenC, token_address tokenB] of
             None \<Rightarrow> routes
           | Some amountB \<Rightarrow>
               (case quoteOut cfg quotes k amountB [token_address tokenB, token_address tokenA] of
                  None \<Rightarrow> routes
                | Some finalAmount \<Rightarrow>
                    let profit = finalAmount - amountIn in
                    if profit > 0
                    then routes @
                      [\<lparr>route_type = ''3-hop'',
                        route_path = [token_address tokenA, token_address tokenC,
                                      token_address tokenB, token_address tokenA],
                        route_dexIndices = [i, j, k],
                        route_amountIn = amountIn,
                        expectedOut = finalAmount,
                        route_profit = profit,
                        route_profitPercent = real_of_int profit / 10 ^ decimals tokenA * 100\<rparr>]
                    else routes)))"

text \<open>
  The three nested loops, with the conditions as the source writes them:
  \<open>for (let i = 0; i < CONFIG.dexes.length; i++)\<close>,
  \<open>for (let j = 0; i < CONFIG.dexes.length; j++)\<close>,
  \<open>for (let k = 0; i < CONFIG.dexes.length; k++)\<close>. A loop that does not end has no
  value: \<open>None\<close>.
\<close>

partial_function (option) threeHop_k ::
  "Config \<Rightarrow> Quotes \<Rightarrow> Token \<Rightarrow> Token \<Rightarrow> Token \<Rightarrow> nat \<Rightarrow> nat \<Rightarrow> nat \<Rightarrow> Route list
     \<Rightarrow> Route list option" where
  "threeHop_k cfg quotes tokenA tokenB tokenC i j k routes =
     (if i < length (dexes cfg)
      then threeHop_k cfg quotes tokenA tokenB tokenC i j (k + 1)
             (threeHopBody cfg quotes tokenA tokenB tokenC i j k routes)
      else Some routes)"

partial_function (option) threeHop_j ::
  "Config \<Rightarrow> Quotes \<Rightarrow> Token \<Rightarrow> Token \<Rightarrow> Token \<Rightarrow> nat \<Rightarrow> nat \<Rightarrow> Route list
     \<Rightarrow> Route list option" where
  "threeHop_j cfg quotes tokenA tokenB tokenC i j routes =
     (if i < length (dexes cfg)
      then Option.bind (threeHop_k cfg quotes tokenA tokenB tokenC i j 0 routes)
             (threeHop_j cfg quotes tokenA tokenB tokenC i (j + 1))
      else Some routes)"

partial_function (option) threeHop_i ::
  "Config \<Rightarrow> Quotes \<Rightarrow> Token \<Rightarrow> Token \<Rightarrow> Token \<Rightarrow> nat \<Rightarrow> Route list
     \<Rightarrow> Route list option" where
  "threeHop_i cfg quotes tokenA tokenB tokenC i routes =
     (if i < length (dexes cfg)
      then Option.bind (threeHop_j cfg quotes tokenA tokenB tokenC i 0 routes)
             (threeHop_i cfg quotes tokenA tokenB tokenC (i + 1))
      else Some routes)"

text \<open>The loop over the token list, which passes over \<open>tokenA\<close> and \<open>tokenB\<close> themselves.\<close>

fun threeHop_tokens ::
  "Config \<Rightarrow> Quotes \<Rightarrow> Token \<Rightarrow> Token \<Rightarrow> Token list \<Rightarrow> Route list \<Rightarrow> Route list option" where
  "threeHop_tokens cfg quotes tokenA tokenB [] routes = Some routes"
| "threeHop_tokens cfg quotes tokenA tokenB (tokenC # rest) routes =
     (if token_address tokenC = token_address tokenA \<or>
         token_address tokenC = token_address tokenB
      then threeHop_tokens cfg quotes tokenA tokenB rest routes
      else Option.bind (threeHop_i cfg quotes tokenA tokenB tokenC 0 routes)
             (threeHop_tokens cfg quotes tokenA tokenB rest))"

text \<open>
  The block of \<open>findBestArbitrageRoute\<close> guarded by \<open>CONFIG.maxHops >= 3\<close> (lines 429-491),
  which is reached when at least two venues have quoted the pair; \<open>routes\<close> holds the
  two-hop routes found before.
\<close>

definition threeHopSearch ::
  "Config \<Rightarrow> Quotes \<Rightarrow> Token list \<Rightarrow> Token \<Rightarrow> Token \<Rightarrow> Route list \<Rightarrow> Route list option" where
  "threeHopSearch cfg quotes tokenList tokenA tokenB routes =
     (if maxHops cfg \<ge> 3 then threeHop_tokens cfg quotes tokenA tokenB tokenList routes
      else Some routes)"

subsection \<open>Sample inputs of the orchestrator\<close>

definition weth :: Token where
  "weth = \<lparr>token_address = ''0xWETH'', symbol = ''WETH'', decimals = 18\<rparr>"

definition usdc :: Token where
  "usdc = \<lparr>token_address = ''0xUSDC'', symbol = ''USDC'', decimals = 6\<rparr>"

definition dai :: Token where
  "dai = \<lparr>token_address = ''0xDAI'', symbol = ''DAI'', decimals = 18\<rparr>"

definition sample_config :: Config where
  "sample_config =
     \<lparr>dexes = [\<lparr>dex_name = ''UniswapV2'', has_router = True\<rparr>,
               \<lparr>dex_name = ''SushiSwap'', has_router = True\<rparr>],
      minProfitUSD = 5, cfg_minProfitPercent = 0.5, maxHops = 3,
      maxExecutionsPerHour = 2, executionCooldown = 30, gasLimit = 1500000\<rparr>"

definition sample_opportunity :: Opportunity where
  "sample_opportunity =
     \<lparr>opp_tokenA = Some weth, opp_tokenB = Some usdc, opp_amountIn = 10 ^ 18,
      opp_path = [''0xWETH'', ''0xUSDC'', ''0xWETH''], opp_dexIndices = [0, 1],
      opp_profit = 2 * 10 ^ 16, opp_profitPercent = 2, estimatedProfitUSD = 40,
      opp_profitable = True, routeDescription = ''Buy USDC on UniswapV2, Sell on SushiSwap''\<rparr>"

text \<open>A transaction that is mined and succeeds, and one that is mined and fails.\<close>

definition env_success :: ExecEnv where
  "env_success = \<lparr>clock_gate = 1700000000000, clock_route = 1700000000100,
     clock_done = 1700000012000, getGasPrice = Some 30000000000,
     tx_outcome = Receipt ''0xabc'' 1\<rparr>"

definition env_failure :: ExecEnv where
  "env_failure = \<lparr>clock_gate = 1700000000000, clock_route = 1700000000100,
     clock_done = 1700000012000, getGasPrice = Some 30000000000,
     tx_outcome = Receipt ''0xabc'' 0\<rparr>"

definition sample_sent :: SubmittedTx where
  "sample_sent =
     \<lparr>sub_tokenA = ''0xWETH'', sub_tokenB = ''0xUSDC'', sub_amountIn = 10 ^ 18,
      sub_path = [''0xWETH'', ''0xUSDC'', ''0xWETH''], sub_dexIndices = [0, 1],
      sub_expectedProfit = 2 * 10 ^ 16, sub_timestamp = 1700000000,
      sub_gasPrice = 30000000000, sub_gasLimit = 1500000\<rparr>"

definition sample_pair :: WatchedPair where
  "sample_pair = \<lparr>pair_tokenA = weth, pair_tokenB = usdc, pair_active = True,
     lastChecked = 0, lastProfit = 0, successCount = 0\<rparr>"

definition record_at :: "int \<Rightarrow> ExecutionRecord" where
  "record_at t = \<lparr>exec_timestamp = t, txHash = ''0x1'', exec_profit = 10, exec_route = ''r''\<rparr>"

definition busy_history :: "ExecutionRecord list" where
  "busy_history = [record_at 1699990000000, record_at 1699999000000, record_at 1699999900000]"

text \<open>Every venue quotes one for one, so that both venues price the pair.\<close>

definition flat_quotes :: Quotes where
  "flat_quotes = (\<lambda>i amount p. Some [amount, amount])"

section \<open>Atomic execution unit (MultiDexArbitrageBot.sol)\<close>

text \<open>
  Addresses are numbers. A \<open>uint256\<close> is a \<^typ>\<open>nat\<close>; the compiler (\<open>pragma solidity ^0.8.0\<close>)
  checks every \<open>+\<close>, \<open>-\<close> and \<open>*\<close> and every array index, and a failed check is a panic that
  reverts the transaction. A call is a value of \<open>error + 'a\<close>: \<open>Inl\<close> is a revert, which undoes
  every effect of the transaction, \<open>Inr\<close> a normal return.
\<close>

type_synonym address = nat

datatype error = Revert string | Panic | CallReverted

definition MAX_UINT256 :: nat where
  "MAX_UINT256 = 2 ^ 256 - 1"

definition checked_add :: "nat \<Rightarrow> nat \<Rightarrow> nat option" where
  "checked_add a b = (if a + b \<le> MAX_UINT256 then Some (a + b) else None)"

definition checked_sub :: "nat \<Rightarrow> nat \<Rightarrow> nat option" where
  "checked_sub a b = (if b \<le> a then Some (a - b) else None)"

definition checked_mul :: "nat \<Rightarrow> nat \<Rightarrow> nat option" where
  "checked_mul a b = (if a * b \<le> MAX_UINT256 then Some (a * b) else None)"

record DexRouter =
  router :: address
  factory :: address
  name :: string
  active :: bool

record ArbitrageRoute =
  path :: "address list"
  dexIndices :: "nat list"
  expectedProfit :: nat
  timestamp :: nat

datatype event =
    ArbitrageExecuted address address nat nat nat nat
  | ArbitrageFailed address address string nat

text \<open>
  The storage of the contract, with what its base contracts keep: the owner (\<open>Ownable\<close>),
  the re-entrancy status (\<open>ReentrancyGuard\<close>), the lending pool (\<open>POOL\<close>), and the
  contract's own address.
\<close>

record Storage =
  dexRouters :: "DexRouter list"
  activePairs :: "address \<Rightarrow> address \<Rightarrow> bool"
  minProfitPercent :: nat
  maxGasPrice :: nat
  minReserveRatio :: nat
  paused :: bool
  owner :: address
  entered :: bool
  POOL :: address
  self :: address

record Tx =
  msg_sender :: address
  msg_value :: nat
  block_timestamp :: nat
  tx_gasprice :: nat

text \<open>
  The token ledger: \<open>balances w token holder\<close> and the allowances the contract has given,
  \<open>allowances w token spender\<close>. Tokens are standard ERC-20 contracts: \<open>balanceOf\<close> reads
  the ledger, \<open>approve\<close> sets an allowance and changes no balance, \<open>transfer\<close> moves the
  amount or reverts.
\<close>

record World =
  balances :: "address \<Rightarrow> address \<Rightarrow> nat"
  allowances :: "address \<Rightarrow> address \<Rightarrow> nat"

definition balanceOf :: "World \<Rightarrow> address \<Rightarrow> address \<Rightarrow> nat" where
  "balanceOf w token holder = balances w token holder"

definition approve :: "address \<Rightarrow> address \<Rightarrow> nat \<Rightarrow> World \<Rightarrow> World" where
  "approve token spender amount w =
     w\<lparr>allowances := (allowances w)(token := (allowances w token)(spender := amount))\<rparr>"

definition transfer :: "address \<Rightarrow> address \<Rightarrow> address \<Rightarrow> nat \<Rightarrow> World \<Rightarrow> World option" where
  "transfer token sender recipient amount w =
     (if balances w token sender < amount then None
      else
        let debited = (balances w token)(sender := balances w token sender - amount);
            credited = debited(recipient := debited recipient + amount)
        in Some (w\<lparr>balances := (balances w)(token := credited)\<rparr>))"

text \<open>
  The contracts the unit calls and does not define: the venues' routers, the wrapped
  native token, the native transfer and the lending pool. Each is an arbitrary function
  of the ledger; \<open>None\<close> is a call that reverts. The routers' functions take the router's
  address first.
\<close>

record Venues =
  getAmountsOut :: "address \<Rightarrow> nat \<Rightarrow> address list \<Rightarrow> World \<Rightarrow> nat list option"
  swapExactTokensForTokens ::
    "address \<Rightarrow> nat \<Rightarrow> nat \<Rightarrow> address list \<Rightarrow> address \<Rightarrow> nat \<Rightarrow> World \<Rightarrow> (nat list \<times> World) option"
  swapExactTokensForETH ::
    "address \<Rightarrow> nat \<Rightarrow> nat \<Rightarrow> address list \<Rightarrow> address \<Rightarrow> nat \<Rightarrow> World \<Rightarrow> World option"
  WETH :: "address \<Rightarrow> address option"
  weth_deposit :: "address \<Rightarrow> nat \<Rightarrow> World \<Rightarrow> World option"
  weth_withdraw :: "address \<Rightarrow> nat \<Rightarrow> World \<Rightarrow> World option"
  send_native :: "address \<Rightarrow> nat \<Rightarrow> World \<Rightarrow> World option"
  flashLoanSimple ::
    "address \<Rightarrow> address \<Rightarrow> nat \<Rightarrow> address \<times> ArbitrageRoute \<times> nat \<Rightarrow> World
       \<Rightarrow> error + event list \<times> World"

text \<open>
  A record of one executed hop, kept beside the result so that properties of every hop can
  be stated: the venue's quote \<open>amountsOut[1]\<close>, the floor passed to the venue, and the
  realized output \<open>postBalance - preBalance\<close>.
\<close>

record Hop =
  quoted :: nat
  minOut :: nat
  realized :: nat

subsection \<open>Best venue for the swap back\<close>

text \<open>
  The loops of \<open>findBestDexForSwap\<close> and \<open>getBestOutputForSwap\<close> count with a \<open>uint8\<close>:
  incrementing 255 panics. A quote that reverts is caught and the venue passed over;
  \<open>amounts[amounts.length - 1]\<close> of an empty answer panics inside the success block.
\<close>

fun findBestDexLoop ::
  "Venues \<Rightarrow> address \<Rightarrow> address \<Rightarrow> nat \<Rightarrow> World \<Rightarrow> DexRouter list \<Rightarrow> nat \<Rightarrow> nat \<Rightarrow> nat
     \<Rightarrow> error + nat \<times> nat" where
  "findBestDexLoop v fromToken toToken amount w [] i bestOutput bestDexIndex =
     Inr (bestOutput, bestDexIndex)"
| "findBestDexLoop v fromToken toToken amount w (dex # rest) i bestOutput bestDexIndex =
     (case (if active dex then
              (case getAmountsOut v (router dex) amount [fromToken, toToken] w of
                 None \<Rightarrow> Inr (bestOutput, bestDexIndex)
               | Some amounts \<Rightarrow>
                   if amounts = [] then Inl Panic
                   else if last amounts > bestOutput then Inr (last amounts, i)
                   else Inr (bestOutput, bestDexIndex))
            else Inr (bestOutput, bestDexIndex)) of
        Inl e \<Rightarrow> Inl e
      | Inr (bestOutput', bestDexIndex') \<Rightarrow>
          if i = 255 then Inl Panic
          else findBestDexLoop v fromToken toToken amount w rest (i + 1)
                 bestOutput' bestDexIndex')"

definition findBestDexForSwap ::
  "Venues \<Rightarrow> Storage \<Rightarrow> address \<Rightarrow> address \<Rightarrow> nat \<Rightarrow> World \<Rightarrow> error + nat" where
  "findBestDexForSwap v st fromToken toToken amount w =
     (case findBestDexLoop v fromToken toToken amount w (dexRouters st) 0 0 0 of
        Inl e \<Rightarrow> Inl e
      | Inr (bestOutput, bestDexIndex) \<Rightarrow>
          if bestOutput > 0 then Inr bestDexIndex else Inl (Revert ''No valid DEX found''))"

fun getBestOutputLoop ::
  "Venues \<Rightarrow> address \<Rightarrow> address \<Rightarrow> nat \<Rightarrow> World \<Rightarrow> DexRouter list \<Rightarrow> nat \<Rightarrow> nat
     \<Rightarrow> error + nat" where
  "getBestOutputLoop v fromToken toToken amount w [] i bestOutput = Inr bestOutput"
| "getBestOutputLoop v fromToken toToken amount w (dex # rest) i bestOutput =
     (case (if active dex then
              (case getAmountsOut v (router dex) amount [fromToken, toToken] w of
                 None \<Rightarrow> Inr bestOutput
               | Some amounts \<Rightarrow>
                   if amounts = [] then Inl Panic
                   else if last amounts > bestOutput then Inr (last amounts)
                   else Inr bestOutput)
            else Inr bestOutput) of
        Inl e \<Rightarrow> Inl e
      | Inr bestOutput' \<Rightarrow>
          if i = 255 then Inl Panic
          else getBestOutputLoop v fromToken toToken amount w rest (i + 1) bestOutput')"

definition getBestOutputForSwap ::
  "Venues \<Rightarrow> Storage \<Rightarrow> address \<Rightarrow> address \<Rightarrow> nat \<Rightarrow> World \<Rightarrow> error + nat" where
  "getBestOutputForSwap v st fromToken toToken amount w =
     getBestOutputLoop v fromToken toToken amount w (dexRouters st) 0 0"

text \<open>
  \<open>swapTokensBack\<close> (lines 391-424): the amount credited, the ledger afterwards and the
  record of the hop. Nothing inside is caught here.
\<close>

definition swapTokensBack ::
  "Venues \<Rightarrow> Storage \<Rightarrow> Tx \<Rightarrow> address \<Rightarrow> address \<Rightarrow> nat \<Rightarrow> World
     \<Rightarrow> error + nat \<times> World \<times> Hop" where
  "swapTokensBack v st tx fromToken toToken amount w =
     (case findBestDexForSwap v st fromToken toToken amount w of
        Inl e \<Rightarrow> Inl e
      | Inr bestDexIndex \<Rightarrow>
          if bestDexIndex < length (dexRouters st) then
            let dex = dexRouters st ! bestDexIndex;
                w1 = approve fromToken (router dex) 0 w;
                w2 = approve fromToken (router dex) amount w1;
                preBalance = balanceOf w2 toToken (self st)
            in case getAmountsOut v (router dex) amount [fromToken, toToken] w2 of
                 None \<Rightarrow> Inl CallReverted
               | Some expectedAmounts \<Rightarrow>
                   if 1 < length expectedAmounts then
                     (case checked_mul (expectedAmounts ! 1) (10000 - 50) of
                        None \<Rightarrow> Inl Panic
                      | Some scaled \<Rightarrow>
                          (case swapExactTokensForTokens v (router dex) amount (scaled div 10000)
                                  [fromToken, toToken] (self st) (block_timestamp tx) w2 of
                             None \<Rightarrow> Inl CallReverted
                           | Some (amounts, w3) \<Rightarrow>
                               (case checked_sub (balanceOf w3 toToken (self st)) preBalance of
                                  None \<Rightarrow> Inl Panic
                                | Some received \<Rightarrow>
                                    Inr (received, w3,
                                         \<lparr>quoted = expectedAmounts ! 1,
                                          minOut = scaled div 10000,
                                          realized = received\<rparr>))))
                   else Inl Panic
          else Inl Panic)"

subsection \<open>The hop loop\<close>

text \<open>
  One iteration of the loop of \<open>executeSwaps\<close> (lines 328-370). The swap is called under
  \<open>try\<close>: when it reverts, its own effects are undone and \<open>executeSwaps\<close> returns false
  (\<open>HopCaught\<close>, with the ledger as the approvals left it). A failed check inside the success
  block is not caught.
\<close>

datatype HopResult = HopCaught World | HopDone World nat Hop

definition swapHop ::
  "Venues \<Rightarrow> Storage \<Rightarrow> Tx \<Rightarrow> nat \<Rightarrow> address \<Rightarrow> address \<Rightarrow> nat \<Rightarrow> World \<Rightarrow> error + HopResult" where
  "swapHop v st tx dexIndex currentToken nextToken currentAmount w =
     (if dexIndex < length (dexRouters st) then
        if active (dexRouters st ! dexIndex) then
          let preBalance = balanceOf w nextToken (self st);
              dex = dexRouters st ! dexIndex;
              w1 = approve currentToken (router dex) 0 w;
              w2 = approve currentToken (router dex) currentAmount w1
          in case getAmountsOut v (router dex) currentAmount [currentToken, nextToken] w2 of
               None \<Rightarrow> Inl CallReverted
             | Some amountsOut \<Rightarrow>
                 if 1 < length amountsOut then
                   (case checked_mul (amountsOut ! 1) (10000 - 50) of
                      None \<Rightarrow> Inl Panic
                    | Some scaled \<Rightarrow>
                        (case swapExactTokensForTokens v (router dex) currentAmount
                                (scaled div 10000) [currentToken, nextToken] (self st)
                                (block_timestamp tx) w2 of
                           None \<Rightarrow> Inr (HopCaught w2)
                         | Some (amounts, w3) \<Rightarrow>
                             (case checked_sub (balanceOf w3 nextToken (self st)) preBalance of
                                None \<Rightarrow> Inl Panic
                              | Some swappedAmount \<Rightarrow>
                                  if swappedAmount > 0
                                  then Inr (HopDone w3 swappedAmount
                                         \<lparr>quoted = amountsOut ! 1,
                                          minOut = scaled div 10000,
                                          realized = swappedAmount\<rparr>)
                                  else Inl (Revert ''Zero swap amount''))))
                 else Inl Panic
        else Inl (Revert ''DEX not active'')
      else Inl (Revert ''Invalid DEX index''))"

text \<open>
  The loop over the hops \<open>(dexIndices[i], path[i + 1])\<close>. The result is the current token and
  amount at the end, or \<open>None\<close> when a swap was caught; the ledger; the hops made.
\<close>

fun swapLoop ::
  "Venues \<Rightarrow> Storage \<Rightarrow> Tx \<Rightarrow> (nat \<times> address) list \<Rightarrow> address \<Rightarrow> nat \<Rightarrow> World \<Rightarrow> Hop list
     \<Rightarrow> error + (address \<times> nat) option \<times> World \<times> Hop list" where
  "swapLoop v st tx [] currentToken currentAmount w hops =
     Inr (Some (currentToken, currentAmount), w, hops)"
| "swapLoop v st tx ((dexIndex, nextToken) # rest) currentToken currentAmount w hops =
     (case swapHop v st tx dexIndex currentToken nextToken currentAmount w of
        Inl e \<Rightarrow> Inl e
      | Inr (HopCaught w') \<Rightarrow> Inr (None, w', hops)
      | Inr (HopDone w' swappedAmount hop) \<Rightarrow>
          swapLoop v st tx rest nextToken swappedAmount w' (hops @ [hop]))"

text \<open>
  \<open>executeSwaps\<close> (lines 315-386). After the two length checks \<open>path[i + 1]\<close> exists for
  every \<open>i\<close>, so the hops are the indices paired with the tail of the path. The source
  calls \<open>swapTokensBack\<close> under \<open>try\<close>: any failure inside it is caught, its effects are
  undone and the result is false.
\<close>

definition executeSwaps ::
  "Venues \<Rightarrow> Storage \<Rightarrow> Tx \<Rightarrow> address \<Rightarrow> address \<Rightarrow> nat \<Rightarrow> ArbitrageRoute \<Rightarrow> World
     \<Rightarrow> error + bool \<times> World \<times> Hop list" where
  "executeSwaps v st tx tokenA tokenB amountIn route w =
     (if length (path route) < 2 then Inl (Revert ''Invalid path length'')
      else if length (path route) \<noteq> length (dexIndices route) + 1
      then Inl (Revert ''Path/DEX indices mismatch'')
      else
        case swapLoop v st tx (zip (dexIndices route) (tl (path route))) tokenA amountIn w [] of
          Inl e \<Rightarrow> Inl e
        | Inr (None, w1, hops) \<Rightarrow> Inr (False, w1, hops)
        | Inr (Some (currentToken, currentAmount), w1, hops) \<Rightarrow>
            if tokenA = tokenB then
              (if currentToken = tokenA then Inr (True, w1, hops)
               else Inl (Revert ''Path does not form a loop''))
            else
              (case swapTokensBack v st tx currentToken tokenA currentAmount w1 of
                 Inl e \<Rightarrow> Inr (False, w1, hops)
               | Inr (finalAmount, w2, hop) \<Rightarrow> Inr (True, w2, hops @ [hop])))"

subsection \<open>The authoritative simulation\<close>

text \<open>
  The loop of \<open>simulateArbitrage\<close> (lines 518-540) over the venue indices, with the part of
  the path that starts at \<open>path[i + 1]\<close>. \<open>None\<close> is \<open>return false\<close>; reading
  \<open>path[i + 1]\<close> past the end panics.
\<close>

fun simulateLoop ::
  "Venues \<Rightarrow> Storage \<Rightarrow> World \<Rightarrow> nat list \<Rightarrow> address list \<Rightarrow> address \<Rightarrow> nat
     \<Rightarrow> error + (address \<times> nat) option" where
  "simulateLoop v st w [] rest currentToken currentAmount =
     Inr (Some (currentToken, currentAmount))"
| "simulateLoop v st w (dexIndex # others) rest currentToken currentAmount =
     (if dexIndex < length (dexRouters st) then
        if active (dexRouters st ! dexIndex) then
          (case rest of
             [] \<Rightarrow> Inl Panic
           | nextToken # rest' \<Rightarrow>
               (case getAmountsOut v (router (dexRouters st ! dexIndex)) currentAmount
                       [currentToken, nextToken] w of
                  None \<Rightarrow> Inr None
                | Some amounts \<Rightarrow>
                    if 1 < length amounts then
                      if amounts ! 1 = 0 then Inr None
                      else simulateLoop v st w others rest' nextToken (amounts ! 1)
                    else Inl Panic))
        else Inr None
      else Inr None)"

text \<open>\<open>amountIn + amountIn * minProfitPercent / 100000\<close> and the like, with the checks.\<close>

definition plus_share :: "nat \<Rightarrow> nat \<Rightarrow> nat \<Rightarrow> nat \<Rightarrow> nat option" where
  "plus_share base amount numerator denominator =
     (case checked_mul amount numerator of
        None \<Rightarrow> None
      | Some scaled \<Rightarrow> checked_add base (scaled div denominator))"

text \<open>
  \<open>simulateArbitrage\<close> (lines 506-562). \<open>simulatedAmounts[0] = amountIn\<close> panics on an empty
  path. The source calls \<open>getBestOutputForSwap\<close> under \<open>try\<close>: a failure inside it gives
  false. \<open>&&\<close> evaluates its right side only when the left side holds.
\<close>

definition simulateArbitrage ::
  "Venues \<Rightarrow> Storage \<Rightarrow> Tx \<Rightarrow> address \<Rightarrow> address \<Rightarrow> nat \<Rightarrow> ArbitrageRoute \<Rightarrow> World
     \<Rightarrow> error + bool" where
  "simulateArbitrage v st tx tokenA tokenB amountIn route w =
     (if path route = [] then Inl Panic
      else
        case simulateLoop v st w (dexIndices route) (tl (path route)) tokenA amountIn of
          Inl e \<Rightarrow> Inl e
        | Inr None \<Rightarrow> Inr False
        | Inr (Some (currentToken, currentAmount)) \<Rightarrow>
            if tokenA = tokenB then
              (if currentAmount > amountIn then
                 (case plus_share amountIn amountIn (minProfitPercent st) 100000 of
                    None \<Rightarrow> Inl Panic
                  | Some threshold \<Rightarrow> Inr (currentAmount \<ge> threshold))
               else Inr False)
            else
              (case getBestOutputForSwap v st currentToken tokenA currentAmount w of
                 Inl e \<Rightarrow> Inr False
               | Inr finalAmount \<Rightarrow>
                   (case (if msg_sender tx = POOL st then plus_share amountIn amountIn 9 10000
                          else Some amountIn) of
                      None \<Rightarrow> Inl Panic
                    | Some totalDebt \<Rightarrow>
                        if finalAmount > totalDebt then
                          (case plus_share totalDebt amountIn (minProfitPercent st) 100000 of
                             None \<Rightarrow> Inl Panic
                           | Some threshold \<Rightarrow> Inr (finalAmount \<ge> threshold))
                        else Inr False)))"

subsection \<open>The flash-loan callback\<close>

text \<open>
  \<open>executeOperation\<close> (lines 244-310), with \<open>params\<close> already decoded. A normal return
  gives the returned boolean, the events emitted and the ledger; \<open>transfer\<close> to the owner
  reverts the call when it fails.
\<close>

definition executeOperation ::
  "Venues \<Rightarrow> Storage \<Rightarrow> Tx \<Rightarrow> address \<Rightarrow> nat \<Rightarrow> nat \<Rightarrow> address
     \<Rightarrow> address \<times> ArbitrageRoute \<times> nat \<Rightarrow> World \<Rightarrow> error + bool \<times> event list \<times> World" where
  "executeOperation v st tx asset amount premium initiator params w =
     (case params of (tokenB, route, amountIn) \<Rightarrow>
      if msg_sender tx \<noteq> POOL st then Inl (Revert ''Caller is not POOL'')
      else if initiator \<noteq> owner st then Inl (Revert ''Initiator is not owner'')
      else
       (case checked_add amount premium of
          None \<Rightarrow> Inl Panic
        | Some totalDebt \<Rightarrow>
            if balanceOf w asset (self st) < amount
            then Inl (Revert ''Insufficient loan received'')
            else
              (case simulateArbitrage v st tx asset tokenB amount route w of
                 Inl e \<Rightarrow> Inl e
               | Inr profitable \<Rightarrow>
                   if profitable then
                     (case executeSwaps v st tx asset tokenB amount route w of
                        Inl e \<Rightarrow> Inl e
                      | Inr (success, w1, hops) \<Rightarrow>
                          if success then
                            let finalBalance = balanceOf w1 asset (self st) in
                            if finalBalance < totalDebt
                            then Inl (Revert ''Insufficient funds to repay'')
                            else
                              let profit = finalBalance - totalDebt in
                              (case checked_mul amount (minProfitPercent st) of
                                 None \<Rightarrow> Inl Panic
                               | Some scaled \<Rightarrow>
                                   if profit < scaled div 100000
                                   then Inl (Revert ''Profit below threshold'')
                                   else
                                     let w2 = approve asset (POOL st) totalDebt w1 in
                                     (case (if profit > 0
                                            then transfer asset (self st) (owner st) profit w2
                                            else Some w2) of
                                        None \<Rightarrow> Inl CallReverted
                                      | Some w3 \<Rightarrow>
                                          Inr (True,
                                               [ArbitrageExecuted asset tokenB amount
                                                  finalBalance profit (block_timestamp tx)],
                                               w3)))
                          else
                            Inr (True,
                                 [ArbitrageFailed asset tokenB ''Swap execution failed''
                                    (block_timestamp tx)],
                                 w1))
                   else Inl (Revert ''Simulation shows no profit''))))"

subsection \<open>The entry points\<close>


text \<open>
  The part of \<open>executeArbitrageWithNative\<close> after its \<open>require\<close> block (lines 189-238): wrap,
  swap, then either unwrap the proceeds to the caller or give the input back. The source
  declares \<open>success\<close> twice, for the wrapping call and for \<open>executeSwaps\<close>; they are read
  as two variables.
\<close>

definition nativeBody ::
  "Venues \<Rightarrow> Storage \<Rightarrow> Tx \<Rightarrow> address \<Rightarrow> address \<Rightarrow> ArbitrageRoute \<Rightarrow> World
     \<Rightarrow> error + event list \<times> World" where
  "nativeBody v st tx weth_token tokenB route w =
     (let tokenA = weth_token; amountIn = msg_value tx in
      case weth_deposit v weth_token amountIn w of
        None \<Rightarrow> Inl (Revert ''ETH wrap failed'')
      | Some w1 \<Rightarrow>
          let initialBalance = balanceOf w1 tokenA (self st) in
          (case executeSwaps v st tx tokenA tokenB amountIn route w1 of
             Inl e \<Rightarrow> Inl e
           | Inr (success, w2, hops) \<Rightarrow>
               if success then
                 let finalBalance = balanceOf w2 tokenA (self st) in
                 if finalBalance > initialBalance then
                   let profit = finalBalance - initialBalance;
                       w3 = approve weth_token (router (dexRouters st ! 0)) finalBalance w2
                   in (case swapExactTokensForETH v (router (dexRouters st ! 0)) finalBalance 0
                              [weth_token, weth_token] (msg_sender tx) (block_timestamp tx) w3 of
                         None \<Rightarrow> Inl CallReverted
                       | Some w4 \<Rightarrow>
                           Inr ([ArbitrageExecuted tokenA tokenB amountIn finalBalance profit
                                   (block_timestamp tx)], w4))
                 else Inl (Revert ''No profit generated'')
               else
                 (case weth_withdraw v weth_token amountIn w2 of
                    None \<Rightarrow> Inl (Revert ''ETH unwrap failed'')
                  | Some w3 \<Rightarrow>
                      (case send_native v (msg_sender tx) amountIn w3 of
                         None \<Rightarrow> Inl CallReverted
                       | Some w4 \<Rightarrow>
                           Inr ([ArbitrageFailed tokenA tokenB ''Swap execution failed''
                                   (block_timestamp tx)], w4)))))"

text \<open>
  \<open>executeArbitrageWithNative\<close> (lines 179-239). \<open>dexRouters[0]\<close> panics when no venue is
  registered; \<open>WETH()\<close> is a call to the first router.
\<close>

definition executeArbitrageWithNative ::
  "Venues \<Rightarrow> Storage \<Rightarrow> Tx \<Rightarrow> address \<Rightarrow> ArbitrageRoute \<Rightarrow> World
     \<Rightarrow> error + event list \<times> World" where
  "executeArbitrageWithNative v st tx tokenB route w =
     (if msg_sender tx \<noteq> owner st then Inl (Revert ''Ownable: caller is not the owner'')
      else if entered st then Inl (Revert ''ReentrancyGuard: reentrant call'')
      else if paused st then Inl (Revert ''Contract is paused'')
      else if msg_value tx > 0 then
        (case dexRouters st of
           [] \<Rightarrow> Inl Panic
         | dex0 # others \<Rightarrow>
             (case WETH v (router dex0) of
                None \<Rightarrow> Inl CallReverted
              | Some weth_token \<Rightarrow>
                  if activePairs st weth_token tokenB then
                    (case checked_add (timestamp route) 300 of
                       None \<Rightarrow> Inl Panic
                     | Some expiry \<Rightarrow>
                         if block_timestamp tx \<le> expiry then
                           if tx_gasprice tx \<le> maxGasPrice st
                           then nativeBody v st tx weth_token tokenB route w
                           else Inl (Revert ''Gas price too high'')
                         else Inl (Revert ''Route expired''))
                  else Inl (Revert ''Pair not active'')))
      else Inl (Revert ''No ETH sent''))"

text \<open>
  The venue's side of the slippage floor. The router is a contract of its own; the swap
  is given \<open>amountOutMin\<close> so that the floor is "enforced by the venue itself (the venue
  must reject/revert if it cannot deliver at least the floor)", in the words of section
  4.1 of the specification. \<open>enforcing_floor v\<close> is the venue \<open>v\<close> made to do so: a swap
  that would credit the recipient with less than \<open>amountOutMin\<close> of the output token
  reverts.
\<close>

definition enforcing_floor :: "Venues \<Rightarrow> Venues" where
  "enforcing_floor v =
     v\<lparr>swapExactTokensForTokens :=
         (\<lambda>r amountIn amountOutMin p recipient deadline w.
            case swapExactTokensForTokens v r amountIn amountOutMin p recipient deadline w of
              None \<Rightarrow> None
            | Some (amounts, w') \<Rightarrow>
                if p = [] then None
                else if balanceOf w' (last p) recipient
                          < balanceOf w (last p) recipient + amountOutMin
                then None
                else Some (amounts, w'))\<rparr>"

text \<open>The events of a call of \<open>executeOperation\<close> that returned; a reverted call leaves none.\<close>

definition emitted :: "error + bool \<times> event list \<times> World \<Rightarrow> event list option" where
  "emitted r = (case r of Inl e \<Rightarrow> None | Inr (ok, events, w) \<Rightarrow> Some events)"

subsection \<open>Sample inputs of the contract\<close>

text \<open>
  Two tokens (1 and 2), the contract at address 100, its owner at 200, the lending pool at
  300, one venue whose router is at 10. The sample venue quotes by a given rate and, when
  it swaps, delivers the quote less \<open>slip\<close> units; it reverts when that is below the floor
  it was given. Token 1 is the wrapped native token: a deposit credits the contract.
\<close>

definition rate_out :: "address \<Rightarrow> address \<Rightarrow> nat \<Rightarrow> nat" where
  "rate_out tokenIn tokenOut amount =
     (if tokenIn = 1 \<and> tokenOut = 2 then 2 * amount
      else if tokenIn = 2 \<and> tokenOut = 1 then amount div 2 + 1
      else 0)"

definition rich_out :: "address \<Rightarrow> address \<Rightarrow> nat \<Rightarrow> nat" where
  "rich_out tokenIn tokenOut amount =
     (if tokenIn = 1 \<and> tokenOut = 2 then 2 * amount
      else if tokenIn = 2 \<and> tokenOut = 1 then amount div 2 + amount div 100
      else 0)"

definition par_out :: "address \<Rightarrow> address \<Rightarrow> nat \<Rightarrow> nat" where
  "par_out tokenIn tokenOut amount = amount"

definition sample_venues :: "(address \<Rightarrow> address \<Rightarrow> nat \<Rightarrow> nat) \<Rightarrow> nat \<Rightarrow> Venues" where
  "sample_venues quote slip =
     \<lparr>getAmountsOut = (\<lambda>r amount p w.
         case p of [tokenIn, tokenOut] \<Rightarrow> Some [amount, quote tokenIn tokenOut amount]
                 | _ \<Rightarrow> None),
      swapExactTokensForTokens = (\<lambda>r amountIn amountOutMin p recipient deadline w.
         case p of
           [tokenIn, tokenOut] \<Rightarrow>
             let out = quote tokenIn tokenOut amountIn - slip in
             if out < amountOutMin then None
             else
               (case transfer tokenIn recipient r amountIn w of
                  None \<Rightarrow> None
                | Some w1 \<Rightarrow>
                    Some ([amountIn, out],
                          w1\<lparr>balances := (balances w1)
                               (tokenOut := (balances w1 tokenOut)
                                  (recipient := balances w1 tokenOut recipient + out))\<rparr>))
         | _ \<Rightarrow> None),
      swapExactTokensForETH = (\<lambda>r amountIn amountOutMin p recipient deadline w. Some w),
      WETH = (\<lambda>r. Some 1),
      weth_deposit = (\<lambda>token amount w.
         Some (w\<lparr>balances := (balances w)
                 (token := (balances w token)(100 := balances w token 100 + amount))\<rparr>)),
      weth_withdraw = (\<lambda>token amount w. transfer token 100 token amount w),
      send_native = (\<lambda>recipient amount w. Some w),
      flashLoanSimple = (\<lambda>receiver asset amount params w. Inr ([], w))\<rparr>"


definition sample_storage :: Storage where
  "sample_storage =
     \<lparr>dexRouters = [\<lparr>router = 10, factory = 11, name = ''UniswapV2'', active = True\<rparr>],
      activePairs = (\<lambda>a b. (a = 1 \<and> b = 2) \<or> (a = 2 \<and> b = 1)),
      minProfitPercent = 100, maxGasPrice = 100000000000, minReserveRatio = 20,
      paused = False, owner = 200, entered = False, POOL = 300, self = 100\<rparr>"

definition holding :: "address \<Rightarrow> nat \<Rightarrow> World" where
  "holding token amount =
     \<lparr>balances = (\<lambda>t h. if t = token \<and> h = 100 then amount else 0),
      allowances = (\<lambda>t s. 0)\<rparr>"

definition one_hop_route :: "nat \<Rightarrow> ArbitrageRoute" where
  "one_hop_route created = \<lparr>path = [1, 2], dexIndices = [0], expectedProfit = 1, timestamp = created\<rparr>"

definition pool_tx :: Tx where
  "pool_tx = \<lparr>msg_sender = 300, msg_value = 0, block_timestamp = 1700000000, tx_gasprice = 30000000000\<rparr>"

definition owner_tx :: "nat \<Rightarrow> nat \<Rightarrow> Tx" where
  "owner_tx now val =
     \<lparr>msg_sender = 200, msg_value = val, block_timestamp = now, tx_gasprice = 30000000000\<rparr>"

definition rounding_run :: "error + bool \<times> event list \<times> World" where
  "rounding_run =
     executeOperation (sample_venues rate_out 0) sample_storage pool_tx 1 999 1 200
       (2, one_hop_route 1699999990, 999) (holding 1 999)"

definition rich_run :: "error + bool \<times> event list \<times> World" where
  "rich_run =
     executeOperation (sample_venues rich_out 0) sample_storage pool_tx 1 1000000 500 200
       (2, one_hop_route 1699999990, 1000000) (holding 1 1000000)"

definition hops_of :: "error + bool \<times> World \<times> Hop list \<Rightarrow> (bool \<times> Hop list) option" where
  "hops_of r = (case r of Inl e \<Rightarrow> None | Inr (ok, w, hops) \<Rightarrow> Some (ok, hops))"

definition events_of :: "error + event list \<times> World \<Rightarrow> error + event list" where
  "events_of r = (case r of Inl e \<Rightarrow> Inl e | Inr (events, w) \<Rightarrow> Inr events)"


text \<open>
  A run whose simulation finds no profit (the venue trades one for one), and the runs of
  a venue that delivers 4 and 6 units under a quote of 1000.
\<close>

definition flat_run :: "error + bool \<times> event list \<times> World" where
  "flat_run =
     executeOperation (sample_venues par_out 0) sample_storage pool_tx 1 1000000 500 200
       (2, one_hop_route 1699999990, 1000000) (holding 1 1000000)"

definition slip_run :: "nat \<Rightarrow> nat \<Rightarrow> error + bool \<times> World \<times> Hop list" where
  "slip_run amount slip =
     executeSwaps (enforcing_floor (sample_venues par_out slip)) sample_storage pool_tx 1 2 amount
       (one_hop_route 1699999990) (holding 1 amount)"

section \<open>Properties of the risk and calibration module\<close>

subsection \<open>Evaluation of the arithmetic\<close>

lemma binade_eq:
  assumes "2 powi k \<le> \<bar>x\<bar>" and "\<bar>x\<bar> < 2 powi (k + 1)" and "- 1022 \<le> k"
  shows "binade x = k"
proof -
  have pos: "0 < \<bar>x\<bar>" using assms(1) by (smt (verit) zero_less_power_int)
  have "2 powr (real_of_int k + 1) = 2 powr (real_of_int (k + 1))" by simp
  also have "\<dots> = 2 powi (k + 1)" by (rule powr_real_of_int') simp_all
  finally have "\<bar>x\<bar> < 2 powr (real_of_int k + 1)" using assms(2) by simp
  moreover have "2 powr (real_of_int k) \<le> \<bar>x\<bar>"
    using assms(1) powr_real_of_int' [of 2 k] by simp
  ultimately have "\<lfloor>log 2 \<bar>x\<bar>\<rfloor> = k"
    using pos by (simp add: floor_log_eq_powr_iff)
  with assms(3) show ?thesis by (simp add: binade_def)
qed

text \<open>The exponents of the numbers the sample inputs run through.\<close>

lemmas binades =
  binade_eq [where k = "- 7"] binade_eq [where k = "- 6"] binade_eq [where k = "- 5"]
  binade_eq [where k = "- 4"] binade_eq [where k = "- 3"] binade_eq [where k = "- 2"]
  binade_eq [where k = "- 1"] binade_eq [where k = "0"] binade_eq [where k = "1"]
  binade_eq [where k = "2"]

lemmas double_eval = nearest_double_def binades round_ties_even_def MAX_DOUBLE_def Let_def

lemma thresholds:
  "nearest_double (1 / 10) = Finite (3602879701896397 / 36028797018963968)"
  "nearest_double (3 / 10) = Finite (5404319552844595 / 18014398509481984)"
  by (simp_all add: double_eval)

text \<open>
  The comparisons of doubles are those of an order with NaN left out: a number that is not
  below another exceeds every bound the other exceeds.
\<close>

lemma fle_fgt_trans: "fle a b \<Longrightarrow> fgt a c \<Longrightarrow> fgt b c"
  by (cases a; cases b; cases c) simp_all

lemma foldl_fadd_map: "foldl (\<lambda>sum trade. fadd sum (f trade)) a ts = foldl fadd a (map f ts)"
  by (induction ts arbitrary: a) simp_all

lemma reduce_mean:
  "fdiv (foldl (\<lambda>sum trade. fadd sum (errorRatio trade)) (Finite 0) ts)
        (Finite (real (length ts)))
     = computed_mean (map errorRatio ts)"
  by (simp add: computed_mean_def foldl_fadd_map [symmetric])

lemma reduce_squares:
  "fdiv (foldl (\<lambda>sum trade. fadd sum (Math_pow ml (fsub (errorRatio trade) m) (Finite 2)))
           (Finite 0) ts)
        (Finite (real (length ts)))
     = fdiv (foldl fadd (Finite 0)
               (map (\<lambda>x. Math_pow ml (fsub x m) (Finite 2)) (map errorRatio ts)))
            (Finite (real (length (map errorRatio ts))))"
  by (simp add: foldl_fadd_map [symmetric] comp_def)

text \<open>The level computed by \<open>assessRisk\<close>, in terms of the statistics it computes.\<close>

lemma level_assessRisk:
  "level (assessRisk ml pa) =
     (if length (historicalData pa) < 5 then Unknown
      else if fgt (computed_mean (recent_errors (historicalData pa))) (criticalErrorThreshold pa)
           then High
      else if fgt (computed_mean (recent_errors (historicalData pa))) (errorThreshold pa)
           then Medium
      else if fgt (computed_deviation ml (recent_errors (historicalData pa)))
                (nearest_double (2 / 10))
           then Medium
      else Low)"
  unfolding assessRisk_def Let_def reduce_mean reduce_squares
  by (simp add: recent_errors_def computed_deviation_def computed_variance_def)

text \<open>
  The five samples added from \<open>0.59\<close> to \<open>0.05\<close> give the mean \<open>0.30000000000000004\<close>; added
  from \<open>0.05\<close> to \<open>0.59\<close> they give the double \<open>0.3\<close>, which is the critical threshold.
\<close>

lemma mean_forward:
  "computed_mean (recent_errors forward_history) = Finite (1351079888211149 / 4503599627370496)"
  by (simp add: computed_mean_def recent_errors_def forward_history_def slice_last_def
        sample_of_def double_eval)

lemma mean_backward:
  "computed_mean (recent_errors backward_history) = Finite (5404319552844595 / 18014398509481984)"
  by (simp add: computed_mean_def recent_errors_def backward_history_def slice_last_def
        sample_of_def double_eval)

lemma level_forward: "level (assessRisk ml (new_ProfitAnalyzer forward_history)) = High"
  by (simp add: level_assessRisk mean_forward new_ProfitAnalyzer_def thresholds)
     (simp add: forward_history_def)

lemma level_backward: "level (assessRisk ml (new_ProfitAnalyzer backward_history)) = Medium"
  by (simp add: level_assessRisk mean_backward new_ProfitAnalyzer_def thresholds)
     (simp add: backward_history_def)



lemma ratios_forward:
  "error_ratios forward_history =
     [5314247560297185 / 9007199254740992, 1261007895663739 / 4503599627370496,
      8106479329266893 / 18014398509481984, 1170935903116329 / 9007199254740992,
      3602879701896397 / 72057594037927936]"
  by (simp add: error_ratios_def forward_history_def sample_of_def double_eval)

lemma ratios_backward: "error_ratios backward_history = rev (error_ratios forward_history)"
  unfolding ratios_forward
  by (simp add: error_ratios_def backward_history_def sample_of_def double_eval)

lemma mean_ratios_forward: "mean (error_ratios forward_history) = 21617278211378381 / 72057594037927936"
  by (simp add: ratios_forward mean_def)

lemma mean_ratios_backward: "mean (error_ratios backward_history) = 21617278211378381 / 72057594037927936"
  by (simp add: ratios_backward ratios_forward mean_def)

lemma variance_ratios_backward:
  "variance_of (error_ratios backward_history) = variance_of (error_ratios forward_history)"
  unfolding variance_of_def mean_ratios_forward mean_ratios_backward
  by (simp add: ratios_backward ratios_forward)



lemma whole_forward: "slice_last 10 forward_history = forward_history" "length forward_history = 5"
  by (simp_all add: slice_last_def forward_history_def)

lemma whole_backward:
  "slice_last 10 backward_history = backward_history" "length backward_history = 5"
  by (simp_all add: slice_last_def backward_history_def)

lemma spec_level_forward: "spec_risk_level forward_history = High"
  by (simp add: spec_risk_level_def whole_forward mean_ratios_forward)

lemma spec_level_backward: "spec_risk_level backward_history = High"
  by (simp add: spec_risk_level_def whole_backward mean_ratios_backward)

lemma mean_calm: "computed_mean (recent_errors calm_history) = Finite (1 / 4)"
  by (simp add: computed_mean_def recent_errors_def calm_history_def slice_last_def
        sample_of_def double_eval)

lemma mean_rough: "computed_mean (recent_errors rough_history) = Finite (1 / 2)"
  by (simp add: computed_mean_def recent_errors_def rough_history_def slice_last_def
        sample_of_def double_eval)

lemma variance_calm:
  "computed_variance sample_math (recent_errors calm_history)
     = Finite (3602879701896397 / 288230376151711744)"
  unfolding computed_variance_def mean_calm
  by (simp add: recent_errors_def calm_history_def slice_last_def sample_of_def sample_math_def
        fsub_def double_eval)

lemma variance_rough:
  "computed_variance sample_math (recent_errors rough_history)
     = Finite (3602879701896397 / 288230376151711744)"
  unfolding computed_variance_def mean_rough
  by (simp add: recent_errors_def rough_history_def slice_last_def sample_of_def sample_math_def
        fsub_def double_eval)

lemma mean_early_low: "computed_mean (recent_errors early_low_history) = Finite (5 / 16)"
  by (simp add: computed_mean_def recent_errors_def early_low_history_def slice_last_def
        sample_of_def double_eval)

lemma mean_early_high: "computed_mean (recent_errors early_high_history) = Finite (19 / 64)"
  by (simp add: computed_mean_def recent_errors_def early_high_history_def slice_last_def
        sample_of_def double_eval)

lemma level_early_low: "level (assessRisk ml (new_ProfitAnalyzer early_low_history)) = High"
  by (simp add: level_assessRisk mean_early_low new_ProfitAnalyzer_def thresholds)
     (simp add: early_low_history_def)

lemma level_early_high: "level (assessRisk ml (new_ProfitAnalyzer early_high_history)) = Medium"
  by (simp add: level_assessRisk mean_early_high new_ProfitAnalyzer_def thresholds)
     (simp add: early_high_history_def)

lemma ratios_early_low:
  "error_ratios early_low_history =
     [3 / 16, 5 / 16, 5 / 16, 5 / 16, 5 / 16, 5 / 16, 5 / 16, 5 / 16, 5 / 16, 5 / 16, 5 / 16]"
  by (simp add: error_ratios_def early_low_history_def sample_of_def double_eval)

lemma ratios_early_high:
  "error_ratios early_high_history =
     [27 / 64, 19 / 64, 19 / 64, 19 / 64, 19 / 64, 19 / 64, 19 / 64, 19 / 64, 19 / 64, 19 / 64,
      19 / 64]"
  by (simp add: error_ratios_def early_high_history_def sample_of_def double_eval)

lemma mean_ratios_early_low: "mean (error_ratios early_low_history) = 53 / 176"
  by (simp add: ratios_early_low mean_def)

lemma mean_ratios_early_high: "mean (error_ratios early_high_history) = 217 / 704"
  by (simp add: ratios_early_high mean_def)

lemma variance_ratios_early_low: "variance_of (error_ratios early_low_history) = 5 / 3872"
  unfolding variance_of_def mean_ratios_early_low
  by (simp add: ratios_early_low power2_eq_square)

lemma variance_ratios_early_high: "variance_of (error_ratios early_high_history) = 5 / 3872"
  unfolding variance_of_def mean_ratios_early_high
  by (simp add: ratios_early_high power2_eq_square)

text \<open>
  An estimate of 1 against an actual profit of \<open>0.7\<close>: the error ratio is
  \<open>0.30000000000000004\<close>, which is above the critical threshold.
\<close>

lemma overestimated_trade_critical:
  "critical (fst (analyzeEstimationAccuracy True overestimated_trade (new_ProfitAnalyzer [])))
     = Some True"
  by (simp add: analyzeEstimationAccuracy_def overestimated_trade_def new_ProfitAnalyzer_def
        js_not_def saveHistoricalData_def fsub_def double_eval)


text \<open>
  C6, as the code has it: with the thresholds the constructor sets, the level returned by
  \<open>assessRisk\<close> is \<open>unknown\<close> below five stored samples, and otherwise it is decided over
  the ten most recent ones by the mean error ratio first (above 0.3 high, above 0.1 medium)
  and by the standard deviation (above 0.2 medium) only after that, else low, where the
  mean and the deviation are the doubles the code computes: the sum taken from the oldest
  sample to the newest and divided by the count, every operation rounded, and the bounds
  the doubles nearest to 0.3, 0.1 and 0.2.
\<close>

theorem risk_level_as_computed:
  assumes "errorThreshold pa = nearest_double (1 / 10)"
    and "criticalErrorThreshold pa = nearest_double (3 / 10)"
  shows "level (assessRisk ml pa) = computed_risk_level ml (historicalData pa)"
  using assms by (simp add: level_assessRisk computed_risk_level_def)

theorem risk_level_as_computed_witness:
  "errorThreshold (new_ProfitAnalyzer rough_history) = nearest_double (1 / 10)
   \<and> criticalErrorThreshold (new_ProfitAnalyzer rough_history) = nearest_double (3 / 10)
   \<and> level (assessRisk sample_math (new_ProfitAnalyzer rough_history)) = High"
proof -
  have t: "errorThreshold (new_ProfitAnalyzer rough_history) = nearest_double (1 / 10)"
    "criticalErrorThreshold (new_ProfitAnalyzer rough_history) = nearest_double (3 / 10)"
    by (simp_all add: new_ProfitAnalyzer_def)
  have l: "length rough_history = 5" by (simp add: rough_history_def)
  have "computed_risk_level sample_math (historicalData (new_ProfitAnalyzer rough_history)) = High"
    by (simp add: computed_risk_level_def new_ProfitAnalyzer_def l mean_rough thresholds)
  with risk_level_as_computed [OF t, of sample_math] t show ?thesis by simp
qed

text \<open>
  C6 as stated fails: the level is not a function of the mean and the deviation of the
  samples. The same five error ratios, stored in two orders, have one mean, which exceeds
  0.3, and one deviation; \<open>assessRisk\<close> answers \<open>high\<close> for one order and \<open>medium\<close> for the
  other.
\<close>

theorem risk_level_counterexample:
  "error_ratios backward_history = rev (error_ratios forward_history)
   \<and> mean (error_ratios backward_history) = mean (error_ratios forward_history)
   \<and> variance_of (error_ratios backward_history) = variance_of (error_ratios forward_history)
   \<and> 0.3 < mean (error_ratios backward_history)
   \<and> spec_risk_level backward_history = High
   \<and> level (assessRisk sample_math (new_ProfitAnalyzer forward_history)) = High
   \<and> level (assessRisk sample_math (new_ProfitAnalyzer backward_history)) = Medium"
  by (simp add: ratios_backward spec_level_backward level_forward level_backward)
     (simp add: ratios_backward [symmetric] mean_ratios_backward mean_ratios_forward
        variance_ratios_backward)

text \<open>
  C7, as the code has it: for two histories of equal size, at least five, for whose ten most
  recent samples \<open>assessRisk\<close> computes the same variance, and for the second a mean that
  is not below the first's, the risk level of the second is not below the first's, in the
  order \<open>low < medium < high\<close>. Mean and variance are the doubles the code computes over
  the window it looks at.
\<close>

theorem risk_level_monotone:
  assumes "length h1 = length h2" and "5 \<le> length h1"
    and "computed_variance ml (recent_errors h1) = computed_variance ml (recent_errors h2)"
    and "fle (computed_mean (recent_errors h1)) (computed_mean (recent_errors h2))"
  shows "risk_rank (level (assessRisk ml (pa\<lparr>historicalData := h1\<rparr>)))
       \<le> risk_rank (level (assessRisk ml (pa\<lparr>historicalData := h2\<rparr>)))"
proof -
  have up: "fgt (computed_mean (recent_errors h1)) c \<Longrightarrow> fgt (computed_mean (recent_errors h2)) c"
    for c using assms(4) by (rule fle_fgt_trans)
  have sd: "computed_deviation ml (recent_errors h1) = computed_deviation ml (recent_errors h2)"
    using assms(3) by (simp add: computed_deviation_def)
  from assms(1,2) up sd show ?thesis by (auto simp: level_assessRisk)
qed

theorem risk_level_monotone_witness:
  "length calm_history = length rough_history \<and> 5 \<le> length calm_history
   \<and> computed_variance sample_math (recent_errors calm_history)
       = computed_variance sample_math (recent_errors rough_history)
   \<and> fle (computed_mean (recent_errors calm_history)) (computed_mean (recent_errors rough_history))
   \<and> level (assessRisk sample_math ((new_ProfitAnalyzer [])\<lparr>historicalData := calm_history\<rparr>))
       = Medium
   \<and> level (assessRisk sample_math ((new_ProfitAnalyzer [])\<lparr>historicalData := rough_history\<rparr>))
       = High
   \<and> risk_rank (level (assessRisk sample_math
                         ((new_ProfitAnalyzer [])\<lparr>historicalData := calm_history\<rparr>)))
       \<le> risk_rank (level (assessRisk sample_math
                         ((new_ProfitAnalyzer [])\<lparr>historicalData := rough_history\<rparr>)))"
proof -
  have l: "length calm_history = length rough_history" "5 \<le> length calm_history"
    by (simp_all add: calm_history_def rough_history_def)
  have v: "computed_variance sample_math (recent_errors calm_history)
             = computed_variance sample_math (recent_errors rough_history)"
    by (simp add: variance_calm variance_rough)
  have m: "fle (computed_mean (recent_errors calm_history))
               (computed_mean (recent_errors rough_history))"
    by (simp add: mean_calm mean_rough)
  have c: "level (assessRisk sample_math ((new_ProfitAnalyzer [])\<lparr>historicalData := calm_history\<rparr>))
             = Medium"
    using l by (simp add: level_assessRisk mean_calm new_ProfitAnalyzer_def thresholds)
  have r: "level (assessRisk sample_math ((new_ProfitAnalyzer [])\<lparr>historicalData := rough_history\<rparr>))
             = High"
    using l by (simp add: level_assessRisk mean_rough new_ProfitAnalyzer_def thresholds)
  from risk_level_monotone [OF l v m, of "new_ProfitAnalyzer []"] l v m c r
  show ?thesis by blast
qed

text \<open>
  C7 as stated fails. Of two sets of eleven samples with the same variance, the one with the
  greater mean gets the lower level, because \<open>assessRisk\<close> looks at the ten most recent
  samples only. And of two sets of five samples that are the same samples in two orders,
  with one mean and one variance, one is \<open>high\<close> and the other \<open>medium\<close>, because the sum of
  doubles depends on the order.
\<close>

theorem risk_level_monotone_counterexample:
  "length early_low_history = length early_high_history \<and> 5 \<le> length early_low_history
   \<and> variance_of (error_ratios early_low_history) = variance_of (error_ratios early_high_history)
   \<and> mean (error_ratios early_low_history) \<le> mean (error_ratios early_high_history)
   \<and> level (assessRisk sample_math (new_ProfitAnalyzer early_low_history)) = High
   \<and> level (assessRisk sample_math (new_ProfitAnalyzer early_high_history)) = Medium
   \<and> length forward_history = length backward_history \<and> 5 \<le> length forward_history
   \<and> variance_of (error_ratios forward_history) = variance_of (error_ratios backward_history)
   \<and> mean (error_ratios forward_history) \<le> mean (error_ratios backward_history)
   \<and> level (assessRisk sample_math (new_ProfitAnalyzer forward_history)) = High
   \<and> level (assessRisk sample_math (new_ProfitAnalyzer backward_history)) = Medium"
  by (simp add: variance_ratios_early_low variance_ratios_early_high mean_ratios_early_low
        mean_ratios_early_high level_early_low level_early_high variance_ratios_backward
        mean_ratios_forward mean_ratios_backward level_forward level_backward whole_forward
        whole_backward)
     (simp add: early_low_history_def early_high_history_def)

text \<open>
  C10: when the \<open>estimated\<close> or the \<open>actual\<close> field of the trade data is 0 or missing,
  \<open>analyzeEstimationAccuracy\<close> returns \<open>accurate = false\<close> with the error \<open>Missing data\<close>
  and leaves the analyzer as it was: no sample is pushed and the statistics file is not
  written.
\<close>

theorem missing_data_not_recorded:
  assumes "js_not (td_estimated tradeData) \<or> js_not (td_actual tradeData)"
  shows "analyzeEstimationAccuracy write_ok tradeData pa =
     (\<lparr>accurate = False, error = Some ''Missing data'', critical = None,
       result_errorRatio = None, errorPercent = None\<rparr>, pa)"
  using assms by (simp add: analyzeEstimationAccuracy_def)

theorem missing_data_not_recorded_witness:
  "(js_not (td_estimated zero_actual_trade) \<or> js_not (td_actual zero_actual_trade))
   \<and> analyzeEstimationAccuracy True zero_actual_trade (new_ProfitAnalyzer calm_history) =
     (\<lparr>accurate = False, error = Some ''Missing data'', critical = None,
       result_errorRatio = None, errorPercent = None\<rparr>, new_ProfitAnalyzer calm_history)"
proof -
  have h: "js_not (td_estimated zero_actual_trade) \<or> js_not (td_actual zero_actual_trade)"
    by (simp add: js_not_def zero_actual_trade_def)
  from missing_data_not_recorded [OF h] h show ?thesis by blast
qed


section \<open>Properties of the execution orchestrator\<close>

text \<open>
  C5: when the records of the execution history that fall within the trailing hour (their
  timestamp is later than the clock less 3600000 ms) number at least
  \<open>maxExecutionsPerHour\<close>, \<open>executeArbitrage\<close> returns false, leaves the history as it is
  and sends no transaction, whatever the opportunity.
\<close>

theorem rate_limit_refuses:
  assumes "int (length (filter (\<lambda>e. exec_timestamp e > clock_gate env - 3600000) executionHistory))
             \<ge> maxExecutionsPerHour cfg"
  shows "executeArbitrage cfg env opportunity executionHistory = (False, executionHistory, None)"
proof -
  have "length (filter (\<lambda>e. exec_timestamp e > clock_gate env - 3600000) executionHistory)
          \<le> length executionHistory"
    by (rule length_filter_le)
  with assms have "int (length executionHistory) \<ge> maxExecutionsPerHour cfg" by linarith
  with assms show ?thesis by (simp add: executeArbitrage_def)
qed

theorem rate_limit_refuses_witness:
  "int (length (filter (\<lambda>e. exec_timestamp e > clock_gate env_success - 3600000) busy_history))
     \<ge> maxExecutionsPerHour sample_config
   \<and> executeArbitrage sample_config env_success sample_opportunity busy_history
       = (False, busy_history, None)"
proof -
  have h: "int (length (filter (\<lambda>e. exec_timestamp e > clock_gate env_success - 3600000)
                  busy_history)) \<ge> maxExecutionsPerHour sample_config"
    by (simp add: busy_history_def record_at_def env_success_def sample_config_def)
  from rate_limit_refuses [OF h] h show ?thesis by blast
qed

text \<open>
  An object without \<open>tokenA\<close>, such as the one \<open>findBestArbitrageRoute\<close> returns, makes
  \<open>executeArbitrage\<close> throw before the contract is called: nothing is sent or recorded.
\<close>

lemma executeArbitrage_without_tokenA:
  "opp_tokenA opportunity = None \<Longrightarrow>
     executeArbitrage cfg env opportunity executionHistory = (False, executionHistory, None)"
  by (simp add: executeArbitrage_def split: option.splits)








subsection \<open>The three-hop search does not return\<close>

lemma threeHop_k_returns:
  assumes "threeHop_k cfg quotes tokenA tokenB tokenC i j k routes = Some r"
  shows "\<not> i < length (dexes cfg)"
  by (rule threeHop_k.raw_induct
        [where P = "\<lambda>cfg quotes tokenA tokenB tokenC i j k routes r. \<not> i < length (dexes cfg)",
         OF _ assms])
     (auto split: if_splits)

lemma threeHop_k_diverges:
  "i < length (dexes cfg) \<Longrightarrow> threeHop_k cfg quotes tokenA tokenB tokenC i j k routes = None"
  using threeHop_k_returns
  by (cases "threeHop_k cfg quotes tokenA tokenB tokenC i j k routes") auto

lemma threeHop_j_diverges:
  "i < length (dexes cfg) \<Longrightarrow> threeHop_j cfg quotes tokenA tokenB tokenC i j routes = None"
  by (subst threeHop_j.simps) (simp add: threeHop_k_diverges)

lemma threeHop_i_diverges:
  "i < length (dexes cfg) \<Longrightarrow> threeHop_i cfg quotes tokenA tokenB tokenC i routes = None"
  by (subst threeHop_i.simps) (simp add: threeHop_j_diverges)

text \<open>
  With at least one venue configured and a token in the list other than the two of the
  pair, the search never returns, whatever the quotes: the loop over \<open>k\<close> tests \<open>i\<close>.
\<close>

lemma threeHopSearch_diverges:
  assumes "maxHops cfg \<ge> 3" and "dexes cfg \<noteq> []"
    and "tokenC \<in> set tokenList" and "token_address tokenC \<noteq> token_address tokenA"
    and "token_address tokenC \<noteq> token_address tokenB"
  shows "threeHopSearch cfg quotes tokenList tokenA tokenB routes = None"
proof -
  have "threeHop_tokens cfg quotes tokenA tokenB tokenList routes = None"
    using assms(2-5)
    by (induction tokenList arbitrary: routes) (auto simp: threeHop_i_diverges)
  with assms(1) show ?thesis by (simp add: threeHopSearch_def)
qed

text \<open>
  C9 fails on the code: with \<open>maxHops = 3\<close>, two venues and the token list WETH, USDC, DAI,
  the three-hop enumeration for the pair WETH and USDC does not terminate.
\<close>

theorem threeHopSearch_never_returns:
  "threeHopSearch sample_config flat_quotes [weth, usdc, dai] weth usdc [] = None"
  by (simp add: threeHopSearch_def sample_config_def weth_def usdc_def dai_def
        threeHop_i_diverges)


section \<open>Properties of the atomic execution unit\<close>

lemma checked_add_Some: "checked_add a b = Some c \<Longrightarrow> c = a + b"
  by (simp add: checked_add_def split: if_splits)


lemma checked_mul_Some: "checked_mul a b = Some c \<Longrightarrow> c = a * b"
  by (simp add: checked_mul_def split: if_splits)


subsection \<open>The outcomes of the callback\<close>

lemma emitted_Some:
  "emitted r = Some events \<Longrightarrow> \<exists>ok w'. r = Inr (ok, events, w')"
  by (auto simp: emitted_def split: sum.splits)

lemma executeOperation_Executed:
  assumes "executeOperation v st tx asset amount premium initiator (tokenB, route, amountIn) w
             = Inr (r, [ArbitrageExecuted a b amt finalBalance profit ts], w')"
  shows "\<exists>totalDebt scaled w1 hops.
      checked_add amount premium = Some totalDebt
    \<and> executeSwaps v st tx asset tokenB amount route w = Inr (True, w1, hops)
    \<and> finalBalance = balanceOf w1 asset (self st)
    \<and> \<not> finalBalance < totalDebt
    \<and> profit = finalBalance - totalDebt
    \<and> checked_mul amount (minProfitPercent st) = Some scaled
    \<and> \<not> profit < scaled div 100000"
  using assms unfolding executeOperation_def Let_def
  by (simp split: if_splits sum.splits option.splits prod.splits bool.splits) auto

lemma executeOperation_one_event:
  assumes "emitted (executeOperation v st tx asset amount premium initiator
                      (tokenB, route, amountIn) w) = Some events"
  shows "(\<exists>w1 hops finalBalance profit.
            executeSwaps v st tx asset tokenB amount route w = Inr (True, w1, hops)
            \<and> events = [ArbitrageExecuted asset tokenB amount finalBalance profit
                          (block_timestamp tx)])
       \<or> (\<exists>w1 hops.
            executeSwaps v st tx asset tokenB amount route w = Inr (False, w1, hops)
            \<and> events = [ArbitrageFailed asset tokenB ''Swap execution failed''
                          (block_timestamp tx)])"
  using assms unfolding executeOperation_def emitted_def Let_def
  by (simp split: if_splits sum.splits option.splits prod.splits bool.splits) auto

lemma executeArbitrage_sent:
  assumes "executeArbitrage cfg env opportunity history = (ok, history', Some sent)"
  shows "if \<exists>h. tx_outcome env = Receipt h 1
         then ok \<and> (\<exists>r. history' = history @ [r])
         else \<not> ok \<and> history' = history"
  using assms unfolding executeArbitrage_def Let_def
  by (auto split: if_splits option.splits TxOutcome.splits)

lemma rounding_run_events:
  "emitted rounding_run = Some [ArbitrageExecuted 1 2 999 1000 0 1700000000]"
  unfolding rounding_run_def
  by (simp add: emitted_def executeOperation_def simulateArbitrage_def getBestOutputForSwap_def
        plus_share_def checked_add_def
        executeSwaps_def swapHop_def swapTokensBack_def
        findBestDexForSwap_def checked_mul_def checked_sub_def MAX_UINT256_def balanceOf_def
        approve_def transfer_def
        sample_venues_def sample_storage_def one_hop_route_def holding_def pool_tx_def
        rate_out_def Let_def)

lemma rich_run_events:
  "emitted rich_run = Some [ArbitrageExecuted 1 2 1000000 1020000 19500 1700000000]"
  unfolding rich_run_def
  by (simp add: emitted_def executeOperation_def simulateArbitrage_def getBestOutputForSwap_def
        plus_share_def checked_add_def
        executeSwaps_def swapHop_def swapTokensBack_def
        findBestDexForSwap_def checked_mul_def checked_sub_def MAX_UINT256_def balanceOf_def
        approve_def transfer_def
        sample_venues_def sample_storage_def one_hop_route_def holding_def pool_tx_def
        rich_out_def Let_def)

lemma flat_run_reverts: "flat_run = Inl (Revert ''Simulation shows no profit'')"
  unfolding flat_run_def
  by (simp add: executeOperation_def simulateArbitrage_def getBestOutputForSwap_def
        plus_share_def checked_add_def
        checked_mul_def MAX_UINT256_def balanceOf_def
        sample_venues_def sample_storage_def one_hop_route_def holding_def pool_tx_def
        par_out_def Let_def)

text \<open>
  C1, as the code has it: when the flash-loan callback emits \<open>ArbitrageExecuted\<close>, the final
  balance it reports is the contract's balance of the borrowed asset after the swaps, it
  covers the amount borrowed plus the premium, the profit is the difference, and the
  profit is at least \<open>amount * minProfitPercent / 100000\<close> in the integer division of the
  contract, so it misses the exact product by less than one unit of the asset.
\<close>

theorem profit_floor:
  assumes "emitted (executeOperation v st tx asset amount premium initiator
                      (tokenB, route, amountIn) w)
             = Some [ArbitrageExecuted a b amt finalBalance profit ts]"
  shows "(\<exists>w1 hops. executeSwaps v st tx asset tokenB amount route w = Inr (True, w1, hops)
            \<and> finalBalance = balanceOf w1 asset (self st))
       \<and> amount + premium \<le> finalBalance
       \<and> profit = finalBalance - (amount + premium)
       \<and> amount * minProfitPercent st div 100000 \<le> profit
       \<and> amount * minProfitPercent st < 100000 * (profit + 1)"
proof -
  from emitted_Some [OF assms] obtain r w' where
    "executeOperation v st tx asset amount premium initiator (tokenB, route, amountIn) w
       = Inr (r, [ArbitrageExecuted a b amt finalBalance profit ts], w')"
    by blast
  from executeOperation_Executed [OF this] obtain totalDebt scaled w1 hops where
    td: "checked_add amount premium = Some totalDebt"
    and sw: "executeSwaps v st tx asset tokenB amount route w = Inr (True, w1, hops)"
    and fb: "finalBalance = balanceOf w1 asset (self st)"
    and rep: "\<not> finalBalance < totalDebt"
    and pr: "profit = finalBalance - totalDebt"
    and sc: "checked_mul amount (minProfitPercent st) = Some scaled"
    and thr: "\<not> profit < scaled div 100000"
    by blast
  from checked_add_Some [OF td] have td': "totalDebt = amount + premium" .
  from checked_mul_Some [OF sc] have sc': "scaled = amount * minProfitPercent st" .
  from thr sc' have fl: "amount * minProfitPercent st div 100000 \<le> profit" by simp
  have "amount * minProfitPercent st
          < 100000 * (amount * minProfitPercent st div 100000 + 1)"
    using div_mult_mod_eq [of "amount * minProfitPercent st" 100000]
          mod_less_divisor [of 100000 "amount * minProfitPercent st"]
    by (simp add: algebra_simps)
  also have "\<dots> \<le> 100000 * (profit + 1)" using fl by simp
  finally have "amount * minProfitPercent st < 100000 * (profit + 1)" .
  with sw fb rep pr td' fl show ?thesis by auto
qed

theorem profit_floor_witness:
  "emitted rich_run = Some [ArbitrageExecuted 1 2 1000000 1020000 19500 1700000000]
   \<and> 1000000 + 500 \<le> (1020000::nat)
   \<and> (19500::nat) = 1020000 - (1000000 + 500)
   \<and> 1000000 * minProfitPercent sample_storage div 100000 \<le> 19500"
  using profit_floor [of "sample_venues rich_out 0" sample_storage pool_tx 1 1000000 500 200
          2 "one_hop_route 1699999990" 1000000 "holding 1 1000000"
          1 2 1000000 1020000 19500 1700000000]
        rich_run_events
  by (simp add: rich_run_def)

text \<open>
  C1 as stated fails: borrowing 999 units at a premium of 1 with \<open>minProfitPercent = 100\<close>,
  the callback emits the success event with a profit of 0, below 999 * 100 / 100000.
\<close>

theorem profit_floor_counterexample:
  "emitted rounding_run = Some [ArbitrageExecuted 1 2 999 1000 0 1700000000]
   \<and> real 0 < real 999 * (real (minProfitPercent sample_storage) / 100000)"
  by (simp add: rounding_run_events) (simp add: sample_storage_def)

text \<open>
  The native entry point has no threshold of its own: with one million units sent it
  emits the success event on a profit of one unit, where the threshold would be 1000.
\<close>

lemma native_run_profit_one:
  "events_of (executeArbitrageWithNative (sample_venues rate_out 0) sample_storage
        (owner_tx 1700000100 1000000) 2 (one_hop_route 1700000000) (holding 1 0))
     = Inr [ArbitrageExecuted 1 2 1000000 1000001 1 1700000100]
   \<and> 1000000 * minProfitPercent sample_storage div 100000 = 1000"
  by (simp add: events_of_def executeArbitrageWithNative_def nativeBody_def checked_add_def
        executeSwaps_def swapHop_def swapTokensBack_def
        findBestDexForSwap_def checked_mul_def checked_sub_def MAX_UINT256_def balanceOf_def
        approve_def transfer_def
        sample_venues_def sample_storage_def one_hop_route_def holding_def owner_tx_def
        rate_out_def Let_def)

text \<open>
  C2, as the code has it: a call of the flash-loan callback that returns has emitted
  exactly one event, \<open>ArbitrageExecuted\<close> when the swaps succeeded and \<open>ArbitrageFailed\<close>
  when a swap was caught (a call that reverts leaves no event); and for a transaction the
  orchestrator has sent, exactly one execution record is appended when the receipt has
  status 1, and none otherwise.
\<close>

theorem terminal_outcomes:
  "(emitted (executeOperation v st tx asset amount premium initiator
               (tokenB, route, amountIn) w) = Some events \<longrightarrow>
      (\<exists>w1 hops finalBalance profit.
          executeSwaps v st tx asset tokenB amount route w = Inr (True, w1, hops)
          \<and> events = [ArbitrageExecuted asset tokenB amount finalBalance profit
                        (block_timestamp tx)])
      \<or> (\<exists>w1 hops.
          executeSwaps v st tx asset tokenB amount route w = Inr (False, w1, hops)
          \<and> events = [ArbitrageFailed asset tokenB ''Swap execution failed''
                        (block_timestamp tx)]))
   \<and> (executeArbitrage cfg env opportunity history = (ok, history', Some sent) \<longrightarrow>
      (if \<exists>h. tx_outcome env = Receipt h 1
       then ok \<and> (\<exists>r. history' = history @ [r])
       else \<not> ok \<and> history' = history))"
  using executeOperation_one_event executeArbitrage_sent by blast

theorem terminal_outcomes_witness:
  "emitted rich_run = Some [ArbitrageExecuted 1 2 1000000 1020000 19500 1700000000]
   \<and> executeArbitrage sample_config env_success sample_opportunity []
       = (True, [\<lparr>exec_timestamp = 1700000012000, txHash = ''0xabc'', exec_profit = 40,
                  exec_route = ''Buy USDC on UniswapV2, Sell on SushiSwap''\<rparr>],
          Some sample_sent)
   \<and> tx_outcome env_success = Receipt ''0xabc'' 1"
proof -
  have a: "executeArbitrage sample_config env_success sample_opportunity []
       = (True, [\<lparr>exec_timestamp = 1700000012000, txHash = ''0xabc'', exec_profit = 40,
                  exec_route = ''Buy USDC on UniswapV2, Sell on SushiSwap''\<rparr>],
          Some sample_sent)"
    by (simp add: executeArbitrage_def sample_config_def sample_opportunity_def
          env_success_def weth_def usdc_def sample_sent_def Let_def)
  have b: "tx_outcome env_success = Receipt ''0xabc'' 1" by (simp add: env_success_def)
  from terminal_outcomes
         [of "sample_venues rich_out 0" sample_storage pool_tx 1 1000000 500 200
             2 "one_hop_route 1699999990" 1000000 "holding 1 1000000"
             "[ArbitrageExecuted 1 2 1000000 1020000 19500 1700000000]"
             sample_config env_success sample_opportunity "[]" True _ sample_sent]
       rich_run_events a b
  show ?thesis by (simp add: rich_run_def)
qed

text \<open>
  C2 as stated fails: a transaction that was sent and whose receipt has status 0 leaves
  the execution history empty, and a callback whose simulation finds no profit reverts,
  so that neither event is emitted.
\<close>

theorem terminal_outcomes_counterexample:
  "executeArbitrage sample_config env_failure sample_opportunity [] = (False, [], Some sample_sent)
   \<and> flat_run = Inl (Revert ''Simulation shows no profit'')
   \<and> emitted flat_run = None"
  by (simp add: flat_run_reverts emitted_def)
     (simp add: executeArbitrage_def sample_config_def sample_opportunity_def
        env_failure_def weth_def usdc_def sample_sent_def Let_def)


subsection \<open>Freshness of the route\<close>










subsection \<open>The slippage floor\<close>













lemma under_06_aborts: "hops_of (slip_run 1000 6) = Some (False, [])"
  by (simp add: slip_run_def hops_of_def enforcing_floor_def
        executeSwaps_def swapHop_def swapTokensBack_def
        findBestDexForSwap_def checked_mul_def checked_sub_def MAX_UINT256_def balanceOf_def
        approve_def transfer_def
        sample_venues_def sample_storage_def one_hop_route_def holding_def pool_tx_def
        par_out_def Let_def)





end
